theory Spec2Isabelle
  imports Complex_Main "HOL-Library.Word"
begin

unbundle bit_operations_syntax

section \<open>NFC frames\<close>

text \<open>
  Modelled from the spec: the class \<open>nfc::NfcFrame\<close> is declared in \<open>nfc/NfcFrame.h\<close>,
  which is not among the sources. The record holds what the spec's data model lists and
  what \<open>StreamModel.cpp\<close> reads through the accessors: the technology tag, the frame type
  (carrier off, carrier on, poll, listen), the encrypted bit, the two timestamps and the
  payload bytes. \<open>limit()\<close> is the number of payload bytes. The timestamps are \<open>double\<close>
  values.
\<close>

text \<open>
  A \<open>double\<close> is a real number, one of the two infinities or NaN; rounding is not modelled.
  Every comparison with NaN is false, as in the source's \<open>>=\<close> and \<open><=\<close>.
\<close>

datatype double = NaN | NegInf | Finite real | PosInf

fun leDouble :: "double \<Rightarrow> double \<Rightarrow> bool" where
  "leDouble NaN y = False"
| "leDouble x NaN = False"
| "leDouble NegInf y = True"
| "leDouble x PosInf = True"
| "leDouble (Finite a) (Finite b) = (a \<le> b)"
| "leDouble x y = False"

definition geDouble :: "double \<Rightarrow> double \<Rightarrow> bool" where
  "geDouble x y = leDouble y x"

datatype TechType = NoneTech | NfcA | NfcB | NfcF | NfcV

datatype FrameType = CarrierOff | CarrierOn | PollFrame | ListenFrame

record NfcFrame =
  techType :: TechType
  frameType :: FrameType
  encrypted :: bool
  timeStart :: double
  timeEnd :: double
  payload :: "8 word list"

definition isCarrierOn :: "NfcFrame \<Rightarrow> bool" where
  "isCarrierOn frame = (frameType frame = CarrierOn)"

definition isCarrierOff :: "NfcFrame \<Rightarrow> bool" where
  "isCarrierOff frame = (frameType frame = CarrierOff)"

definition isPollFrame :: "NfcFrame \<Rightarrow> bool" where
  "isPollFrame frame = (frameType frame = PollFrame)"

definition isListenFrame :: "NfcFrame \<Rightarrow> bool" where
  "isListenFrame frame = (frameType frame = ListenFrame)"

definition isEncrypted :: "NfcFrame \<Rightarrow> bool" where
  "isEncrypted frame = encrypted frame"

definition limit :: "NfcFrame \<Rightarrow> int" where
  "limit frame = int (length (payload frame))"

datatype error = OutOfBounds

text \<open>
  Modelled from the spec: \<open>(*frame)[i]\<close>, the subscript operator of the frame's buffer
  class, is not among the sources. A read below \<open>limit()\<close> gives the payload byte as a
  non-negative \<open>int\<close>; a read at or beyond \<open>limit()\<close> is outside the frame and is the error
  \<open>OutOfBounds\<close>.
\<close>

definition byteAt :: "NfcFrame \<Rightarrow> nat \<Rightarrow> error + int" where
  "byteAt frame i =
     (if i < length (payload frame) then Inr (uint (payload frame ! i)) else Inl OutOfBounds)"

section \<open>Command tables\<close>

definition NfcACmd :: "(int \<times> string) list" where
  "NfcACmd =
     [(0x1A, ''AUTH''), (0x1B, ''PWD_AUTH''), (0x26, ''REQA''), (0x30, ''READ''),
      (0x39, ''READ_CNT''), (0x3A, ''FAST_READ''), (0x3C, ''READ_SIG''), (0x3E, ''TEARING''),
      (0x4B, ''VCSL''), (0x50, ''HLTA''), (0x52, ''WUPA''), (0x60, ''AUTH''), (0x61, ''AUTH''),
      (0x93, ''SEL1''), (0x95, ''SEL2''), (0x97, ''SEL3''), (0xA0, ''COMP_WRITE''),
      (0xA2, ''WRITE''), (0xA5, ''INCR_CNT''), (0xE0, ''RATS'')]"

definition NfcAResp :: "(int \<times> string) list" where
  "NfcAResp = [(0x26, ''ATQA''), (0x52, ''ATQA'')]"

definition NfcBCmd :: "(int \<times> string) list" where
  "NfcBCmd = [(0x05, ''REQB''), (0x1d, ''ATTRIB''), (0x50, ''HLTB'')]"

definition NfcBResp :: "(int \<times> string) list" where
  "NfcBResp = [(0x05, ''ATQB'')]"

definition NfcFCmd :: "(int \<times> string) list" where
  "NfcFCmd = [(0x00, ''REQC'')]"

definition NfcFResp :: "(int \<times> string) list" where
  "NfcFResp = [(0x00, ''ATQC'')]"

definition NfcVCmd :: "(int \<times> string) list" where
  "NfcVCmd =
     [(0x01, ''Inventory''), (0x02, ''StayQuiet''), (0x20, ''ReadBlock''), (0x21, ''WriteBlock''),
      (0x22, ''LockBlock''), (0x23, ''ReadBlocks''), (0x24, ''WriteBlocks''), (0x25, ''Select''),
      (0x26, ''Reset''), (0x27, ''WriteAFI''), (0x28, ''LockAFI''), (0x29, ''WriteDSFID''),
      (0x2a, ''LockDSFID''), (0x2b, ''SysInfo''), (0x2c, ''GetSecurity'')]"

section \<open>Formatting of a command byte\<close>

text \<open>
  \<open>QString("CMD %1").arg(command, 2, 16, QChar('0'))\<close>: Qt writes the integer in base 16
  with the digits \<open>0-9a-f\<close> and pads it on the left with the fill character up to the field
  width. The command is a payload byte, hence never negative.
\<close>

definition hexDigit :: "nat \<Rightarrow> char" where
  "hexDigit d = ''0123456789abcdef'' ! (d mod 16)"

fun toBase16 :: "nat \<Rightarrow> string" where
  "toBase16 n = (if n < 16 then [hexDigit n] else toBase16 (n div 16) @ [hexDigit (n mod 16)])"

definition argHex :: "int \<Rightarrow> nat \<Rightarrow> char \<Rightarrow> string" where
  "argHex a fieldWidth fillChar =
     (let digits = toBase16 (nat a)
      in replicate (fieldWidth - length digits) fillChar @ digits)"

definition cmdLabel :: "int \<Rightarrow> string" where
  "cmdLabel command = ''CMD '' @ argHex command 2 (CHR ''0'')"

section \<open>The event classifier of StreamModel\<close>

definition eventIsoDep :: "NfcFrame \<Rightarrow> error + string" where
  "eventIsoDep frame =
     (case byteAt frame 0 of
        Inl e \<Rightarrow> Inl e
      | Inr command \<Rightarrow>
          Inr (if command AND 0xF7 = 0xC2 \<and> limit frame \<ge> 3 \<and> limit frame \<le> 4 then ''S(Deselect)''
               else if command AND 0xF7 = 0xF2 \<and> limit frame \<ge> 3 \<and> limit frame \<le> 4 then ''S(WTX)''
               else if command AND 0xF6 = 0xA2 \<and> limit frame = 3 then ''R(ACK)''
               else if command AND 0xF6 = 0xB2 \<and> limit frame = 3 then ''R(NACK)''
               else if command AND 0xE2 = 0x02 \<and> limit frame \<ge> 4 then ''I-Block''
               else if command AND 0xE6 = 0xA2 \<and> limit frame = 3 then ''R-Block''
               else if command AND 0xC7 = 0xC2 \<and> limit frame \<ge> 3 \<and> limit frame \<le> 4 then ''S-Block''
               else ''''))"

definition lookupOrEmpty :: "(int \<times> string) list \<Rightarrow> int \<Rightarrow> string" where
  "lookupOrEmpty table command = (case map_of table command of Some name \<Rightarrow> name | None \<Rightarrow> '''')"

definition eventNfcA :: "NfcFrame \<Rightarrow> NfcFrame option \<Rightarrow> error + string" where
  "eventNfcA frame prev =
     (if isEncrypted frame then Inr ''''
      else if isPollFrame frame then
        (case byteAt frame 0 of
           Inl e \<Rightarrow> Inl e
         | Inr command \<Rightarrow>
             if command = 0x50 \<and> limit frame = 4 then Inr ''HALT''
             else if command AND 0xF0 = 0xD0 \<and> limit frame = 5 then Inr ''PPS''
             else
               (case eventIsoDep frame of
                  Inl e \<Rightarrow> Inl e
                | Inr result \<Rightarrow>
                    if result \<noteq> '''' then Inr result
                    else Inr (lookupOrEmpty NfcACmd command)))
      else
        (case prev of
           None \<Rightarrow> Inr ''''
         | Some p \<Rightarrow>
             if \<not> isPollFrame p then Inr ''''
             else
               (case byteAt p 0 of
                  Inl e \<Rightarrow> Inl e
                | Inr command \<Rightarrow>
                    if (command = 0x93 \<or> command = 0x95 \<or> command = 0x97) \<and> limit frame = 3
                    then Inr ''SAK''
                    else if (command = 0x93 \<or> command = 0x95 \<or> command = 0x97) \<and> limit frame = 5
                    then Inr ''UID''
                    else
                      (case (if command = 0xE0
                             then (case byteAt frame 0 of
                                     Inl e \<Rightarrow> Inl e
                                   | Inr first \<Rightarrow> Inr (first = limit frame - 2))
                             else Inr False) of
                         Inl e \<Rightarrow> Inl e
                       | Inr isAts \<Rightarrow>
                           if isAts then Inr ''ATS''
                           else
                             (case eventIsoDep frame of
                                Inl e \<Rightarrow> Inl e
                              | Inr result \<Rightarrow>
                                  if result \<noteq> '''' then Inr result
                                  else Inr (lookupOrEmpty NfcAResp command))))))"

definition eventNfcB :: "NfcFrame \<Rightarrow> NfcFrame option \<Rightarrow> error + string" where
  "eventNfcB frame prev =
     (if isPollFrame frame then
        (case byteAt frame 0 of
           Inl e \<Rightarrow> Inl e
         | Inr command \<Rightarrow>
             (case eventIsoDep frame of
                Inl e \<Rightarrow> Inl e
              | Inr result \<Rightarrow>
                  if result \<noteq> '''' then Inr result
                  else Inr (lookupOrEmpty NfcBCmd command)))
      else if isListenFrame frame then
        (case byteAt frame 0 of
           Inl e \<Rightarrow> Inl e
         | Inr command \<Rightarrow>
             (case eventIsoDep frame of
                Inl e \<Rightarrow> Inl e
              | Inr result \<Rightarrow>
                  if result \<noteq> '''' then Inr result
                  else Inr (lookupOrEmpty NfcBResp command)))
      else Inr '''')"

definition eventNfcF :: "NfcFrame \<Rightarrow> NfcFrame option \<Rightarrow> error + string" where
  "eventNfcF frame prev =
     (case byteAt frame 1 of
        Inl e \<Rightarrow> Inl e
      | Inr command \<Rightarrow>
          if isPollFrame frame then
            (case map_of NfcFCmd command of
               Some name \<Rightarrow> Inr name
             | None \<Rightarrow> Inr (cmdLabel command))
          else if isListenFrame frame then Inr (lookupOrEmpty NfcFResp command)
          else Inr '''')"

definition eventNfcV :: "NfcFrame \<Rightarrow> NfcFrame option \<Rightarrow> error + string" where
  "eventNfcV frame prev =
     (if isPollFrame frame then
        (case byteAt frame 1 of
           Inl e \<Rightarrow> Inl e
         | Inr command \<Rightarrow>
             (case map_of NfcVCmd command of
                Some name \<Rightarrow> Inr name
              | None \<Rightarrow> Inr (cmdLabel command)))
      else Inr '''')"

definition frameEvent :: "NfcFrame \<Rightarrow> NfcFrame option \<Rightarrow> error + string" where
  "frameEvent frame prev =
     (if isCarrierOn frame then Inr ''RF-On''
      else if isCarrierOff frame then Inr ''RF-Off''
      else
        (case techType frame of
           NfcA \<Rightarrow> eventNfcA frame prev
         | NfcB \<Rightarrow> eventNfcB frame prev
         | NfcF \<Rightarrow> eventNfcF frame prev
         | NfcV \<Rightarrow> eventNfcV frame prev
         | NoneTech \<Rightarrow> Inr ''''))"

section \<open>The frame stream of StreamModel\<close>

text \<open>
  \<open>StreamModel::Impl\<close> keeps the visible list \<open>frames\<close> and the pending queue \<open>stream\<close>.
  The fonts, the time format and the lock are left out: the model is sequential. A
  \<open>QModelIndex\<close> made by \<open>createIndex(row, column, impl->frames[row])\<close> carries the row, the
  column and the frame its internal pointer refers to.
\<close>

record StreamModel =
  frames :: "NfcFrame list"
  stream :: "NfcFrame list"

definition headers :: "string list" where
  "headers = [''#'', ''Time'', ''Delta'', ''Rate'', ''Type'', ''Event'', [], ''Frame'']"

definition newStreamModel :: StreamModel where
  "newStreamModel = \<lparr>frames = [], stream = []\<rparr>"

datatype QModelIndex = InvalidIndex | ModelIndex int int NfcFrame

definition rowCount :: "StreamModel \<Rightarrow> int" where
  "rowCount m = int (length (frames m))"

definition columnCount :: "StreamModel \<Rightarrow> int" where
  "columnCount m = int (length headers)"

definition hasIndex :: "StreamModel \<Rightarrow> int \<Rightarrow> int \<Rightarrow> bool" where
  "hasIndex m row column =
     (if row < 0 \<or> column < 0 then False else row < rowCount m \<and> column < columnCount m)"

definition index :: "StreamModel \<Rightarrow> int \<Rightarrow> int \<Rightarrow> QModelIndex" where
  "index m row column =
     (if \<not> hasIndex m row column then InvalidIndex
      else ModelIndex row column (frames m ! nat row))"

definition canFetchMore :: "StreamModel \<Rightarrow> bool" where
  "canFetchMore m = (length (stream m) > 0)"

text \<open>The loop of \<open>fetchMore\<close>: dequeue the head of \<open>stream\<close> and append it to \<open>frames\<close>.\<close>

fun fetchLoop :: "NfcFrame list \<Rightarrow> NfcFrame list \<Rightarrow> NfcFrame list \<times> NfcFrame list" where
  "fetchLoop fs [] = (fs, [])"
| "fetchLoop fs (x # xs) = fetchLoop (fs @ [x]) xs"

definition fetchMore :: "StreamModel \<Rightarrow> StreamModel" where
  "fetchMore m = (case fetchLoop (frames m) (stream m) of (fs, st) \<Rightarrow> \<lparr>frames = fs, stream = st\<rparr>)"

definition resetModel :: "StreamModel \<Rightarrow> StreamModel" where
  "resetModel m = m\<lparr>frames := []\<rparr>"

definition modelRange :: "StreamModel \<Rightarrow> double \<Rightarrow> double \<Rightarrow> QModelIndex list" where
  "modelRange m from to =
     map (\<lambda>i. index m (int i) 0)
       (filter (\<lambda>i. geDouble (timeStart (frames m ! i)) from \<and> leDouble (timeEnd (frames m ! i)) to)
          [0..<length (frames m)])"

definition append :: "StreamModel \<Rightarrow> NfcFrame \<Rightarrow> StreamModel" where
  "append m f = m\<lparr>stream := stream m @ [f]\<rparr>"

definition frame :: "QModelIndex \<Rightarrow> NfcFrame option" where
  "frame idx = (case idx of InvalidIndex \<Rightarrow> None | ModelIndex row column ptr \<Rightarrow> Some ptr)"

text \<open>
  The operations of the frame stream as one step function, to speak about every operation
  at once. The queries leave the model as it is.
\<close>

datatype StreamOp = Append NfcFrame | FetchMore | ResetModel | CanFetchMore | ModelRange double double

fun perform :: "StreamModel \<Rightarrow> StreamOp \<Rightarrow> StreamModel" where
  "perform m (Append f) = append m f"
| "perform m FetchMore = fetchMore m"
| "perform m ResetModel = resetModel m"
| "perform m CanFetchMore = m"
| "perform m (ModelRange from to) = m"

section \<open>Sample buffers and device state\<close>

text \<open>
  Modelled from the spec: the class \<open>SignalBuffer\<close> is declared in \<open>sdr/SignalBuffer.h\<close>,
  which is not among the sources. The record holds the arguments of the constructor calls in
  \<open>process_transfer\<close> (length, stride, sample rate, offset, decimation, type) without the
  sample data; \<open>emptyBuffer\<close> is the default-constructed buffer. The sample count that
  \<open>elements()\<close> reports is a parameter of the functions that call it.
\<close>

datatype SignalType = SAMPLE_REAL | SAMPLE_IQ

record SignalBuffer =
  bufLength :: int
  bufStride :: int
  bufSamplerate :: int
  bufOffset :: int
  bufDecimation :: int
  bufType :: "SignalType option"

definition emptyBuffer :: SignalBuffer where
  "emptyBuffer =
     \<lparr>bufLength = 0, bufStride = 0, bufSamplerate = 0, bufOffset = 0, bufDecimation = 0,
      bufType = None\<rparr>"

text \<open>
  \<open>AirspyDevice::Impl\<close> and \<open>MiriDevice::Impl\<close> declare the same fields, except that only the
  Airspy one has \<open>deviceResult\<close>; one record serves both. The device handle is present or
  null, the stream callback is a registered handler or the empty \<open>std::function\<close>. Counters
  and parameters are integers without overflow. The logger and the mutex are left out.
\<close>

type_synonym StreamHandler = "nat option"

record DeviceImpl =
  deviceName :: string
  deviceVersion :: string
  fileDesc :: int
  centerFreq :: int
  sampleRate :: int
  sampleSize :: int
  sampleType :: int
  gainMode :: int
  gainValue :: int
  tunerAgc :: int
  mixerAgc :: int
  decimation :: int
  streamTime :: int
  deviceResult :: int
  deviceHandle :: "nat option"
  streamQueue :: "SignalBuffer list"
  streamCallback :: StreamHandler
  samplesReceived :: int
  samplesDropped :: int

definition MAX_QUEUE_SIZE :: int where
  "MAX_QUEUE_SIZE = 4"

definition AIRSPY_SUCCESS :: int where
  "AIRSPY_SUCCESS = 0"

definition MIRI_SUCCESS :: int where
  "MIRI_SUCCESS = 0"

text \<open>
  The enumerators of the gain modes are declared in the device headers, which are not among
  the sources: they are parameters of the functions that compare with them.
\<close>

record GainModes =
  Auto :: int
  Linearity :: int
  Sensitivity :: int
  Manual :: int

text \<open>
  The assignment of a \<open>long\<close> argument to an \<open>int\<close> field keeps the low 32 bits, read as
  two's complement.
\<close>

definition intOfLong :: "int \<Rightarrow> int" where
  "intOfLong v = sint (word_of_int v :: 32 word)"

text \<open>
  The state the constructor \<open>Impl(name)\<close> leaves. Its second argument is the enumerator
  \<open>RadioDevice::Float\<close>, declared in a header that is not among the sources.
\<close>

definition newImpl :: "string \<Rightarrow> int \<Rightarrow> DeviceImpl" where
  "newImpl name float =
     \<lparr>deviceName = name, deviceVersion = [], fileDesc = 0, centerFreq = 0, sampleRate = 0,
      sampleSize = 16, sampleType = float, gainMode = 0, gainValue = 0, tunerAgc = 0,
      mixerAgc = 0, decimation = 0, streamTime = 0, deviceResult = 0, deviceHandle = None,
      streamQueue = [], streamCallback = None, samplesReceived = 0, samplesDropped = 0\<rparr>"

section \<open>The capture callback\<close>

text \<open>
  What one call of \<open>process_transfer\<close> did with the buffer: handed it to the registered
  handler, or queued it, after removing the oldest queued buffer when the queue was full.
\<close>

datatype Delivery =
  NotDelivered
| Forwarded nat SignalBuffer
| Queued "SignalBuffer option" SignalBuffer

text \<open>
  The \<open>else\<close> branch both \<open>process_transfer\<close> functions share word for word: discard the
  oldest buffer of a full queue, counting its samples as dropped, then queue the new one.
\<close>

definition storeBuffer ::
  "(SignalBuffer \<Rightarrow> int) \<Rightarrow> DeviceImpl \<Rightarrow> SignalBuffer \<Rightarrow> DeviceImpl \<times> Delivery" where
  "storeBuffer elements device buffer =
     (if int (length (streamQueue device)) \<ge> MAX_QUEUE_SIZE then
        (device\<lparr>samplesDropped := samplesDropped device + elements (hd (streamQueue device)),
                streamQueue := tl (streamQueue device) @ [buffer]\<rparr>,
         Queued (Some (hd (streamQueue device))) buffer)
      else
        (device\<lparr>streamQueue := streamQueue device @ [buffer]\<rparr>, Queued None buffer))"

datatype airspy_sample_type =
  AIRSPY_SAMPLE_FLOAT32_IQ
| AIRSPY_SAMPLE_FLOAT32_REAL
| AIRSPY_SAMPLE_INT16_IQ
| AIRSPY_SAMPLE_INT16_REAL
| AIRSPY_SAMPLE_UINT16_REAL
| AIRSPY_SAMPLE_RAW

record airspy_transfer =
  sample_count :: int
  dropped_samples :: int
  sample_type :: airspy_sample_type

definition Airspy_buffer :: "DeviceImpl \<Rightarrow> airspy_transfer \<Rightarrow> SignalBuffer" where
  "Airspy_buffer device transfer =
     (case sample_type transfer of
        AIRSPY_SAMPLE_FLOAT32_REAL \<Rightarrow>
          \<lparr>bufLength = sample_count transfer, bufStride = 1, bufSamplerate = sampleRate device,
           bufOffset = samplesReceived device, bufDecimation = 0, bufType = Some SAMPLE_REAL\<rparr>
      | AIRSPY_SAMPLE_FLOAT32_IQ \<Rightarrow>
          \<lparr>bufLength = sample_count transfer * 2, bufStride = 2, bufSamplerate = sampleRate device,
           bufOffset = samplesReceived device, bufDecimation = 0, bufType = Some SAMPLE_IQ\<rparr>
      | _ \<Rightarrow> emptyBuffer)"

text \<open>A transfer with the given sample count, dropped count and sample type, for the examples.\<close>

definition mkTransfer :: "int \<Rightarrow> int \<Rightarrow> airspy_sample_type \<Rightarrow> airspy_transfer" where
  "mkTransfer n dropped ty = \<lparr>sample_count = n, dropped_samples = dropped, sample_type = ty\<rparr>"

definition Airspy_process_transfer ::
  "(SignalBuffer \<Rightarrow> int) \<Rightarrow> DeviceImpl option \<Rightarrow> airspy_transfer
     \<Rightarrow> int \<times> DeviceImpl option \<times> Delivery" where
  "Airspy_process_transfer elements ctx transfer =
     (case ctx of
        None \<Rightarrow> (- 1, None, NotDelivered)
      | Some device \<Rightarrow>
          (let buffer = Airspy_buffer device transfer;
               device1 = device\<lparr>samplesReceived := samplesReceived device + sample_count transfer,
                                samplesDropped := samplesDropped device + dropped_samples transfer\<rparr>
           in case streamCallback device1 of
                Some handler \<Rightarrow> (0, Some device1, Forwarded handler buffer)
              | None \<Rightarrow>
                  (case storeBuffer elements device1 buffer of
                     (device2, delivery) \<Rightarrow> (0, Some device2, delivery))))"

definition Miri_process_transfer ::
  "(SignalBuffer \<Rightarrow> int) \<Rightarrow> DeviceImpl option \<Rightarrow> int \<Rightarrow> int \<times> DeviceImpl option \<times> Delivery" where
  "Miri_process_transfer elements ctx len =
     (case ctx of
        None \<Rightarrow> (- 1, None, NotDelivered)
      | Some device \<Rightarrow>
          (let buffer = emptyBuffer;
               device1 = device\<lparr>samplesReceived := samplesReceived device + len\<rparr>
           in case streamCallback device1 of
                Some handler \<Rightarrow> (0, Some device1, Forwarded handler buffer)
              | None \<Rightarrow>
                  (case storeBuffer elements device1 buffer of
                     (device2, delivery) \<Rightarrow> (0, Some device2, delivery))))"

text \<open>
  A run of the capture thread: the driver calls \<open>process_transfer\<close> once for each transfer,
  always with the same device as context. The run returns the final device and what each
  call did.
\<close>

fun Airspy_deliverAll ::
  "(SignalBuffer \<Rightarrow> int) \<Rightarrow> DeviceImpl \<Rightarrow> airspy_transfer list \<Rightarrow> DeviceImpl \<times> Delivery list" where
  "Airspy_deliverAll elements device [] = (device, [])"
| "Airspy_deliverAll elements device (t # ts) =
     (case Airspy_process_transfer elements (Some device) t of
        (rc, Some device', delivery) \<Rightarrow>
          (case Airspy_deliverAll elements device' ts of
             (device'', deliveries) \<Rightarrow> (device'', delivery # deliveries))
      | (rc, None, delivery) \<Rightarrow> (device, [delivery]))"

fun Miri_deliverAll ::
  "(SignalBuffer \<Rightarrow> int) \<Rightarrow> DeviceImpl \<Rightarrow> int list \<Rightarrow> DeviceImpl \<times> Delivery list" where
  "Miri_deliverAll elements device [] = (device, [])"
| "Miri_deliverAll elements device (len # lens) =
     (case Miri_process_transfer elements (Some device) len of
        (rc, Some device', delivery) \<Rightarrow>
          (case Miri_deliverAll elements device' lens of
             (device'', deliveries) \<Rightarrow> (device'', delivery # deliveries))
      | (rc, None, delivery) \<Rightarrow> (device, [delivery]))"

fun evictions :: "Delivery list \<Rightarrow> SignalBuffer list" where
  "evictions [] = []"
| "evictions (Queued (Some b) new # ds) = b # evictions ds"
| "evictions (d # ds) = evictions ds"

fun queued :: "Delivery list \<Rightarrow> SignalBuffer list" where
  "queued [] = []"
| "queued (Queued e new # ds) = new # queued ds"
| "queued (d # ds) = queued ds"

section \<open>Start and stop\<close>

text \<open>
  The driver calls are outside the program: the status code a call returns is an argument
  of the function that makes the call (\<open>rc\<close>), and so is the clock reading (\<open>now\<close>, the
  64-bit count of seconds, stored in the \<open>int\<close> field \<open>streamTime\<close>). Every function
  returns its status code and the device after the call.
\<close>

definition isOpen :: "DeviceImpl \<Rightarrow> bool" where
  "isOpen device = (deviceHandle device \<noteq> None)"

definition Airspy_isStreaming :: "bool \<Rightarrow> DeviceImpl \<Rightarrow> bool" where
  \<comment> \<open>the first argument is the answer of \<open>airspy_is_streaming\<close>\<close>
  "Airspy_isStreaming driverStreaming device = (deviceHandle device \<noteq> None \<and> driverStreaming)"

definition Miri_isStreaming :: "DeviceImpl \<Rightarrow> bool" where
  "Miri_isStreaming device = (deviceHandle device \<noteq> None \<and> streamCallback device \<noteq> None)"

definition Airspy_start :: "int \<Rightarrow> int \<Rightarrow> StreamHandler \<Rightarrow> DeviceImpl \<Rightarrow> int \<times> DeviceImpl" where
  "Airspy_start rc now handler device =
     (if deviceHandle device \<noteq> None then
        (let device1 = device\<lparr>samplesDropped := 0, samplesReceived := 0,
                                streamCallback := handler, streamQueue := []\<rparr>;
             device2 = device1\<lparr>deviceResult := rc\<rparr>;
             device3 = (if deviceResult device2 \<noteq> AIRSPY_SUCCESS
                        then device2\<lparr>streamCallback := None\<rparr> else device2);
             device4 = device3\<lparr>streamTime := intOfLong now\<rparr>
         in (deviceResult device4, device4))
      else (- 1, device))"

definition Airspy_stop :: "int \<Rightarrow> DeviceImpl \<Rightarrow> int \<times> DeviceImpl" where
  "Airspy_stop rc device =
     (if deviceHandle device \<noteq> None \<and> streamCallback device \<noteq> None then
        (let device1 = device\<lparr>deviceResult := rc\<rparr>;
             device2 = device1\<lparr>streamCallback := None, streamQueue := [], streamTime := 0\<rparr>
         in (deviceResult device2, device2))
      else (- 1, device))"

definition Miri_start :: "int \<Rightarrow> int \<Rightarrow> StreamHandler \<Rightarrow> DeviceImpl \<Rightarrow> int \<times> DeviceImpl" where
  "Miri_start rc now handler device =
     (if deviceHandle device \<noteq> None then
        (let device1 = device\<lparr>samplesDropped := 0, samplesReceived := 0,
                                streamCallback := handler, streamQueue := []\<rparr>
         in if rc \<noteq> MIRI_SUCCESS then (- 1, device1\<lparr>streamCallback := None\<rparr>)
            else (0, device1\<lparr>streamTime := intOfLong now\<rparr>))
      else (- 1, device))"

definition Miri_stop :: "int \<Rightarrow> DeviceImpl \<Rightarrow> int \<times> DeviceImpl" where
  "Miri_stop rc device =
     (if deviceHandle device \<noteq> None \<and> streamCallback device \<noteq> None then
        (0, device\<lparr>streamCallback := None, streamQueue := [], streamTime := 0\<rparr>)
      else (- 1, device))"

section \<open>Parameter mutators and accessors\<close>

subsection \<open>The Airspy backend\<close>

definition Airspy_setCenterFreq :: "int \<Rightarrow> int \<Rightarrow> DeviceImpl \<Rightarrow> int \<times> DeviceImpl" where
  "Airspy_setCenterFreq rc v device =
     (let device1 = device\<lparr>centerFreq := intOfLong v\<rparr>
      in if deviceHandle device1 \<noteq> None
         then (let device2 = device1\<lparr>deviceResult := rc\<rparr> in (deviceResult device2, device2))
         else (0, device1))"

definition Airspy_setSampleRate :: "int \<Rightarrow> int \<Rightarrow> DeviceImpl \<Rightarrow> int \<times> DeviceImpl" where
  "Airspy_setSampleRate rc v device =
     (let device1 = device\<lparr>sampleRate := intOfLong v\<rparr>
      in if deviceHandle device1 \<noteq> None
         then (let device2 = device1\<lparr>deviceResult := rc\<rparr> in (deviceResult device2, device2))
         else (0, device1))"

definition Airspy_setGainValue ::
  "GainModes \<Rightarrow> int \<Rightarrow> int \<Rightarrow> DeviceImpl \<Rightarrow> int \<times> DeviceImpl" where
  "Airspy_setGainValue modes rc v device =
     (let device1 = device\<lparr>gainValue := v\<rparr>
      in if deviceHandle device1 \<noteq> None
         then (let device2 =
                     (if gainMode device1 = Linearity modes then device1\<lparr>deviceResult := rc\<rparr>
                      else if gainMode device1 = Sensitivity modes then device1\<lparr>deviceResult := rc\<rparr>
                      else device1)
               in (deviceResult device2, device2))
         else (0, device1))"

definition Airspy_setGainMode ::
  "GainModes \<Rightarrow> int \<Rightarrow> int \<Rightarrow> int \<Rightarrow> int \<Rightarrow> DeviceImpl \<Rightarrow> int \<times> DeviceImpl" where
  \<comment> \<open>\<open>rcLna\<close>, \<open>rcMixer\<close> and \<open>rcGain\<close> are the results of the three driver calls it can make\<close>
  "Airspy_setGainMode modes rcLna rcMixer rcGain mode device =
     (let device1 = device\<lparr>gainMode := mode\<rparr>
      in if deviceHandle device1 \<noteq> None
         then (if gainMode device1 = Auto modes
               then (let device2 = device1\<lparr>deviceResult := rcLna\<rparr>;
                         device3 = device2\<lparr>deviceResult := rcMixer\<rparr>
                     in (deviceResult device3, device3))
               else Airspy_setGainValue modes rcGain (gainValue device1) device1)
         else (0, device1))"

definition Airspy_setTunerAgc :: "GainModes \<Rightarrow> int \<Rightarrow> int \<Rightarrow> DeviceImpl \<Rightarrow> int \<times> DeviceImpl" where
  "Airspy_setTunerAgc modes rc v device =
     (let device1 = device\<lparr>tunerAgc := v\<rparr>;
          device2 = (if tunerAgc device1 \<noteq> 0 then device1\<lparr>gainMode := Auto modes\<rparr> else device1)
      in if deviceHandle device2 \<noteq> None
         then (let device3 = device2\<lparr>deviceResult := rc\<rparr> in (deviceResult device3, device3))
         else (0, device2))"

definition Airspy_setMixerAgc :: "GainModes \<Rightarrow> int \<Rightarrow> int \<Rightarrow> DeviceImpl \<Rightarrow> int \<times> DeviceImpl" where
  "Airspy_setMixerAgc modes rc v device =
     (let device1 = device\<lparr>mixerAgc := v\<rparr>;
          device2 = (if mixerAgc device1 \<noteq> 0 then device1\<lparr>gainMode := Auto modes\<rparr> else device1)
      in if deviceHandle device2 \<noteq> None
         then (let device3 = device2\<lparr>deviceResult := rc\<rparr> in (deviceResult device3, device3))
         else (0, device2))"

definition Airspy_setDecimation :: "int \<Rightarrow> DeviceImpl \<Rightarrow> int \<times> DeviceImpl" where
  "Airspy_setDecimation v device = (0, device\<lparr>decimation := v\<rparr>)"

definition Airspy_centerFreq :: "DeviceImpl \<Rightarrow> int" where
  "Airspy_centerFreq device = centerFreq device"

definition Airspy_sampleRate :: "DeviceImpl \<Rightarrow> int" where
  "Airspy_sampleRate device = sampleRate device"

definition Airspy_gainMode :: "DeviceImpl \<Rightarrow> int" where
  "Airspy_gainMode device = gainMode device"

definition Airspy_gainValue :: "DeviceImpl \<Rightarrow> int" where
  "Airspy_gainValue device = gainValue device"

definition Airspy_tunerAgc :: "DeviceImpl \<Rightarrow> int" where
  "Airspy_tunerAgc device = tunerAgc device"

definition Airspy_mixerAgc :: "DeviceImpl \<Rightarrow> int" where
  "Airspy_mixerAgc device = mixerAgc device"

definition Airspy_decimation :: "DeviceImpl \<Rightarrow> int" where
  "Airspy_decimation device = decimation device"

subsection \<open>The Miri backend\<close>

text \<open>
  The methods of \<open>MiriDevice::Impl\<close> first, then the public methods of \<open>MiriDevice\<close>. The
  public methods pass the call on to the \<open>Impl\<close> method of the same name, with three
  exceptions the source has: \<open>sampleRate()\<close> and \<open>setSampleRate\<close> return 0 without touching
  the \<open>Impl\<close>, and \<open>setSampleSize\<close> calls the \<open>Impl\<close>'s \<open>setSampleRate\<close>. The driver's status
  codes are only logged there.
\<close>

definition MiriImpl_setCenterFreq :: "int \<Rightarrow> int \<Rightarrow> DeviceImpl \<Rightarrow> int \<times> DeviceImpl" where
  "MiriImpl_setCenterFreq rc v device =
     (let device1 = device\<lparr>centerFreq := intOfLong v\<rparr>
      in if deviceHandle device1 \<noteq> None then (0, device1) else (- 1, device1))"

definition MiriImpl_setSampleRate :: "int \<Rightarrow> int \<Rightarrow> DeviceImpl \<Rightarrow> int \<times> DeviceImpl" where
  "MiriImpl_setSampleRate rc v device =
     (let device1 = device\<lparr>sampleRate := intOfLong v\<rparr>
      in if deviceHandle device1 \<noteq> None then (0, device1) else (- 1, device1))"

definition MiriImpl_setGainValue :: "int \<Rightarrow> int \<Rightarrow> DeviceImpl \<Rightarrow> int \<times> DeviceImpl" where
  "MiriImpl_setGainValue rc v device =
     (let device1 = device\<lparr>gainValue := v\<rparr>
      in if deviceHandle device1 \<noteq> None then (0, device1) else (- 1, device1))"

definition MiriImpl_setGainMode ::
  "GainModes \<Rightarrow> int \<Rightarrow> int \<Rightarrow> int \<Rightarrow> DeviceImpl \<Rightarrow> int \<times> DeviceImpl" where
  "MiriImpl_setGainMode modes rcMode rcGain mode device =
     (let device1 = device\<lparr>gainMode := mode\<rparr>
      in if deviceHandle device1 \<noteq> None \<and> gainMode device1 = Manual modes
         then MiriImpl_setGainValue rcGain (gainValue device1) device1
         else (- 1, device1))"

definition MiriImpl_setTunerAgc :: "int \<Rightarrow> DeviceImpl \<Rightarrow> int \<times> DeviceImpl" where
  "MiriImpl_setTunerAgc v device = (- 1, device\<lparr>tunerAgc := v\<rparr>)"

definition MiriImpl_setMixerAgc :: "int \<Rightarrow> DeviceImpl \<Rightarrow> int \<times> DeviceImpl" where
  "MiriImpl_setMixerAgc v device = (0, device\<lparr>mixerAgc := v\<rparr>)"

definition MiriImpl_setDecimation :: "int \<Rightarrow> DeviceImpl \<Rightarrow> int \<times> DeviceImpl" where
  "MiriImpl_setDecimation v device = (0, device\<lparr>decimation := v\<rparr>)"

definition Miri_setCenterFreq :: "int \<Rightarrow> int \<Rightarrow> DeviceImpl \<Rightarrow> int \<times> DeviceImpl" where
  "Miri_setCenterFreq rc v device = MiriImpl_setCenterFreq rc v device"

definition Miri_setSampleRate :: "int \<Rightarrow> DeviceImpl \<Rightarrow> int \<times> DeviceImpl" where
  "Miri_setSampleRate v device = (0, device)"

definition Miri_setSampleSize :: "int \<Rightarrow> int \<Rightarrow> DeviceImpl \<Rightarrow> int \<times> DeviceImpl" where
  "Miri_setSampleSize rc v device = MiriImpl_setSampleRate rc v device"

definition Miri_setGainMode ::
  "GainModes \<Rightarrow> int \<Rightarrow> int \<Rightarrow> int \<Rightarrow> DeviceImpl \<Rightarrow> int \<times> DeviceImpl" where
  "Miri_setGainMode modes rcMode rcGain mode device =
     MiriImpl_setGainMode modes rcMode rcGain mode device"

definition Miri_setGainValue :: "int \<Rightarrow> int \<Rightarrow> DeviceImpl \<Rightarrow> int \<times> DeviceImpl" where
  "Miri_setGainValue rc v device = MiriImpl_setGainValue rc v device"

definition Miri_setTunerAgc :: "int \<Rightarrow> DeviceImpl \<Rightarrow> int \<times> DeviceImpl" where
  "Miri_setTunerAgc v device = MiriImpl_setTunerAgc v device"

definition Miri_setMixerAgc :: "int \<Rightarrow> DeviceImpl \<Rightarrow> int \<times> DeviceImpl" where
  "Miri_setMixerAgc v device = MiriImpl_setMixerAgc v device"

definition Miri_setDecimation :: "int \<Rightarrow> DeviceImpl \<Rightarrow> int \<times> DeviceImpl" where
  "Miri_setDecimation v device = MiriImpl_setDecimation v device"

definition Miri_centerFreq :: "DeviceImpl \<Rightarrow> int" where
  "Miri_centerFreq device = centerFreq device"

definition Miri_sampleRate :: "DeviceImpl \<Rightarrow> int" where
  "Miri_sampleRate device = 0"

definition Miri_gainMode :: "DeviceImpl \<Rightarrow> int" where
  "Miri_gainMode device = gainMode device"

definition Miri_gainValue :: "DeviceImpl \<Rightarrow> int" where
  "Miri_gainValue device = gainValue device"

definition Miri_tunerAgc :: "DeviceImpl \<Rightarrow> int" where
  "Miri_tunerAgc device = tunerAgc device"

definition Miri_mixerAgc :: "DeviceImpl \<Rightarrow> int" where
  "Miri_mixerAgc device = mixerAgc device"

definition Miri_decimation :: "DeviceImpl \<Rightarrow> int" where
  "Miri_decimation device = decimation device"

subsection \<open>The placeholder Miri backend\<close>

text \<open>
  The second \<open>MiriDevice\<close> source has an \<open>Impl\<close> without fields: every mutator returns 0 and
  stores nothing, every accessor returns 0, \<open>start\<close> and \<open>stop\<close> return 0 and \<open>isOpen\<close> and
  \<open>isStreaming\<close> return false. Its state is the unit value.
\<close>

definition MiriStub_setCenterFreq :: "int \<Rightarrow> unit \<Rightarrow> int \<times> unit" where
  "MiriStub_setCenterFreq v device = (0, device)"

definition MiriStub_setSampleRate :: "int \<Rightarrow> unit \<Rightarrow> int \<times> unit" where
  "MiriStub_setSampleRate v device = (0, device)"

definition MiriStub_setGainMode :: "int \<Rightarrow> unit \<Rightarrow> int \<times> unit" where
  "MiriStub_setGainMode v device = (0, device)"

definition MiriStub_setGainValue :: "int \<Rightarrow> unit \<Rightarrow> int \<times> unit" where
  "MiriStub_setGainValue v device = (0, device)"

definition MiriStub_setDecimation :: "int \<Rightarrow> unit \<Rightarrow> int \<times> unit" where
  "MiriStub_setDecimation v device = (0, device)"

definition MiriStub_setTunerAgc :: "int \<Rightarrow> unit \<Rightarrow> int \<times> unit" where
  "MiriStub_setTunerAgc v device = (0, device)"

definition MiriStub_setMixerAgc :: "int \<Rightarrow> unit \<Rightarrow> int \<times> unit" where
  "MiriStub_setMixerAgc v device = (0, device)"

definition MiriStub_centerFreq :: "unit \<Rightarrow> int" where
  "MiriStub_centerFreq device = 0"

definition MiriStub_sampleRate :: "unit \<Rightarrow> int" where
  "MiriStub_sampleRate device = 0"

definition MiriStub_gainMode :: "unit \<Rightarrow> int" where
  "MiriStub_gainMode device = 0"

definition MiriStub_gainValue :: "unit \<Rightarrow> int" where
  "MiriStub_gainValue device = 0"

definition MiriStub_decimation :: "unit \<Rightarrow> int" where
  "MiriStub_decimation device = 0"

definition MiriStub_tunerAgc :: "unit \<Rightarrow> int" where
  "MiriStub_tunerAgc device = 0"

definition MiriStub_mixerAgc :: "unit \<Rightarrow> int" where
  "MiriStub_mixerAgc device = 0"

definition MiriStub_isOpen :: "unit \<Rightarrow> bool" where
  "MiriStub_isOpen device = False"

definition MiriStub_isStreaming :: "unit \<Rightarrow> bool" where
  "MiriStub_isStreaming device = False"

definition MiriStub_start :: "StreamHandler \<Rightarrow> unit \<Rightarrow> int \<times> unit" where
  "MiriStub_start handler device = (0, device)"

definition MiriStub_stop :: "unit \<Rightarrow> int \<times> unit" where
  "MiriStub_stop device = (0, device)"

section \<open>The specification's wording\<close>

text \<open>
  The priority list of the specification's ISO-DEP overlay, written as data: mask, value,
  least length, greatest length (if there is one) and label, in the order of the
  specification. \<open>specIsoDep\<close> is the label of the first entry that matches, or the empty
  label.
\<close>

definition specIsoDepPatterns :: "(int \<times> int \<times> int \<times> int option \<times> string) list" where
  "specIsoDepPatterns =
     [(0xF7, 0xC2, 3, Some 4, ''S(Deselect)''),
      (0xF7, 0xF2, 3, Some 4, ''S(WTX)''),
      (0xF6, 0xA2, 3, Some 3, ''R(ACK)''),
      (0xF6, 0xB2, 3, Some 3, ''R(NACK)''),
      (0xE2, 0x02, 4, None, ''I-Block''),
      (0xE6, 0xA2, 3, Some 3, ''R-Block''),
      (0xC7, 0xC2, 3, Some 4, ''S-Block'')]"

fun specMatches :: "int \<Rightarrow> int \<Rightarrow> int \<times> int \<times> int \<times> int option \<times> string \<Rightarrow> bool" where
  "specMatches b len (msk, v, lo, hi, label) =
     (b AND msk = v \<and> lo \<le> len \<and> (case hi of None \<Rightarrow> True | Some h \<Rightarrow> len \<le> h))"

definition specIsoDep :: "int \<Rightarrow> int \<Rightarrow> string" where
  "specIsoDep b len =
     (case find (specMatches b len) specIsoDepPatterns of
        None \<Rightarrow> ''''
      | Some (msk, v, lo, hi, label) \<Rightarrow> label)"

text \<open>
  The path condition of the calls of \<open>eventIsoDep\<close> in \<open>frameEvent\<close>: the frame is no carrier
  transition and either a technology-B poll or listen frame, or an unencrypted technology-A
  poll frame that is neither HALT nor PPS, or an unencrypted technology-A frame that is not a
  poll frame, follows a poll frame and is neither SAK, UID nor ATS.
\<close>

definition reachesIsoDep :: "NfcFrame \<Rightarrow> NfcFrame option \<Rightarrow> bool" where
  "reachesIsoDep fr prev =
     (\<not> isCarrierOn fr \<and> \<not> isCarrierOff fr \<and>
      (case techType fr of
         NfcA \<Rightarrow>
           \<not> isEncrypted fr \<and>
           (if isPollFrame fr then
              (case byteAt fr 0 of
                 Inl e \<Rightarrow> False
               | Inr command \<Rightarrow>
                   \<not> (command = 0x50 \<and> limit fr = 4) \<and>
                   \<not> (command AND 0xF0 = 0xD0 \<and> limit fr = 5))
            else
              (case prev of
                 None \<Rightarrow> False
               | Some p \<Rightarrow>
                   isPollFrame p \<and>
                   (case byteAt p 0 of
                      Inl e \<Rightarrow> False
                    | Inr command \<Rightarrow>
                        \<not> ((command = 0x93 \<or> command = 0x95 \<or> command = 0x97) \<and>
                           (limit fr = 3 \<or> limit fr = 5)) \<and>
                        \<not> (command = 0xE0 \<and> byteAt fr 0 = Inr (limit fr - 2)))))
       | NfcB \<Rightarrow> isPollFrame fr \<or> isListenFrame fr
       | _ \<Rightarrow> False))"


text \<open>
  The specification's label for an unmatched poll command of technology F or V: \<open>CMD\<close> and
  the command byte as two upper-case hexadecimal digits.
\<close>

definition specHexDigit :: "nat \<Rightarrow> char" where
  "specHexDigit d = ''0123456789ABCDEF'' ! (d mod 16)"

definition specCmdLabel :: "int \<Rightarrow> string" where
  "specCmdLabel command =
     ''CMD '' @ [specHexDigit (nat command div 16), specHexDigit (nat command mod 16)]"




text \<open>A frame with the given tag, type, encrypted bit and payload, for the examples.\<close>

definition mkFrame :: "TechType \<Rightarrow> FrameType \<Rightarrow> bool \<Rightarrow> 8 word list \<Rightarrow> NfcFrame" where
  "mkFrame tech ty enc bytes =
     \<lparr>techType = tech, frameType = ty, encrypted = enc, timeStart = Finite 0, timeEnd = Finite 0,
      payload = bytes\<rparr>"

section \<open>Properties of the classifier\<close>

lemmas frameType_defs =
  isCarrierOn_def isCarrierOff_def isPollFrame_def isListenFrame_def isEncrypted_def

lemma and_exp_cases: "(c::int) AND 2 ^ n = (if bit c n then 2 ^ n else 0)"
  by (rule bit_eqI) (auto simp: bit_and_iff bit_exp_iff)

lemma and_16: "(c::int) AND 0x10 = 0 \<or> c AND 0x10 = 0x10"
  using and_exp_cases [of c 4] by (auto split: if_splits)

lemma rblock_mask:
  assumes "(c::int) AND 0xE6 = 0xA2"
  shows "c AND 0xF6 = 0xA2 \<or> c AND 0xF6 = 0xB2"
proof -
  have "c AND 0xF6 = (c AND 0xE6) OR (c AND 0x10)"
    by (simp flip: bit.conj_disj_distrib)
  then show ?thesis using assms and_16 [of c] by auto
qed

text \<open>
  Claim C5. \<open>frameEvent\<close> looks at the carrier transitions before anything else: a frame
  marked carrier-on gets the label RF-On and a frame marked carrier-off the label RF-Off,
  whatever its technology, payload and predecessor; and a technology-A frame marked
  encrypted that is no carrier transition gets the empty label, whatever its payload, its
  direction and its predecessor.
\<close>

theorem carrier_and_encrypted_first:
  "(isCarrierOn fr \<longrightarrow> frameEvent fr prev = Inr ''RF-On'') \<and>
   (isCarrierOff fr \<longrightarrow> frameEvent fr prev = Inr ''RF-Off'') \<and>
   (techType fr = NfcA \<and> isEncrypted fr \<and> \<not> isCarrierOn fr \<and> \<not> isCarrierOff fr
      \<longrightarrow> frameEvent fr prev = Inr [])"
  by (auto simp: frameEvent_def eventNfcA_def frameType_defs)

theorem carrier_and_encrypted_first_witness:
  "isCarrierOn (mkFrame NfcF CarrierOn False []) \<and>
   frameEvent (mkFrame NfcF CarrierOn False []) None = Inr ''RF-On'' \<and>
   isCarrierOff (mkFrame NfcV CarrierOff False [0x01]) \<and>
   frameEvent (mkFrame NfcV CarrierOff False [0x01]) None = Inr ''RF-Off'' \<and>
   techType (mkFrame NfcA PollFrame True [0x26]) = NfcA \<and>
   isEncrypted (mkFrame NfcA PollFrame True [0x26]) \<and>
   \<not> isCarrierOn (mkFrame NfcA PollFrame True [0x26]) \<and>
   \<not> isCarrierOff (mkFrame NfcA PollFrame True [0x26]) \<and>
   frameEvent (mkFrame NfcA PollFrame True [0x26]) None = Inr []"
  using carrier_and_encrypted_first [of "mkFrame NfcF CarrierOn False []" None]
    carrier_and_encrypted_first [of "mkFrame NfcV CarrierOff False [0x01]" None]
    carrier_and_encrypted_first [of "mkFrame NfcA PollFrame True [0x26]" None]
  by (simp add: mkFrame_def frameType_defs)

text \<open>
  Claim C10. The ISO-DEP overlay never returns the label R-Block: a first byte that has the
  R-Block pattern, \<open>(b & 0xE6) == 0xA2\<close>, also has \<open>(b & 0xF6) == 0xA2\<close> or
  \<open>(b & 0xF6) == 0xB2\<close>, so a 3-byte frame with the R-Block pattern is already labelled
  R(ACK) or R(NACK) by an earlier test.
\<close>

theorem isoDep_never_RBlock:
  "eventIsoDep fr \<noteq> Inr ''R-Block'' \<and>
   (c AND 0xE6 = 0xA2 \<longrightarrow> c AND 0xF6 = 0xA2 \<or> c AND 0xF6 = 0xB2) \<and>
   (byteAt fr 0 = Inr c \<and> c AND 0xE6 = 0xA2 \<and> limit fr = 3 \<longrightarrow>
      eventIsoDep fr = Inr ''R(ACK)'' \<or> eventIsoDep fr = Inr ''R(NACK)'')"
proof (intro conjI impI)
  show "eventIsoDep fr \<noteq> Inr ''R-Block''"
    using rblock_mask by (auto simp: eventIsoDep_def split: sum.splits)
  show "c AND 0xF6 = 0xA2 \<or> c AND 0xF6 = 0xB2" if "c AND 0xE6 = 0xA2"
    using that by (rule rblock_mask)
  show "eventIsoDep fr = Inr ''R(ACK)'' \<or> eventIsoDep fr = Inr ''R(NACK)''"
    if "byteAt fr 0 = Inr c \<and> c AND 0xE6 = 0xA2 \<and> limit fr = 3"
  proof -
    from that have b: "byteAt fr 0 = Inr c" and m: "c AND 0xE6 = 0xA2" and l: "limit fr = 3"
      by auto
    have "(c AND 0xF7) AND 0xE6 = c AND 0xE6"
      by (simp add: and.assoc)
    with m have n: "c AND 0xF7 \<noteq> 0xC2" "c AND 0xF7 \<noteq> 0xF2"
      by auto
    from m have "c AND 0xF6 = 0xA2 \<or> c AND 0xF6 = 0xB2"
      by (rule rblock_mask)
    with n b l show ?thesis
      by (auto simp: eventIsoDep_def)
  qed
qed

theorem isoDep_never_RBlock_witness:
  "byteAt (mkFrame NfcA PollFrame False [0xB3, 0x00, 0x00]) 0 = Inr 0xB3 \<and>
   (0xB3 :: int) AND 0xE6 = 0xA2 \<and>
   limit (mkFrame NfcA PollFrame False [0xB3, 0x00, 0x00]) = 3 \<and>
   (0xB3 :: int) AND 0xF6 = 0xB2 \<and>
   eventIsoDep (mkFrame NfcA PollFrame False [0xB3, 0x00, 0x00]) = Inr ''R(NACK)''"
  using isoDep_never_RBlock [of "mkFrame NfcA PollFrame False [0xB3, 0x00, 0x00]" "0xB3"]
  by (simp add: mkFrame_def byteAt_def limit_def eventIsoDep_def)

subsection \<open>The ISO-DEP overlay\<close>

lemma specIsoDep_unfold:
  "specIsoDep b len =
     (if b AND 0xF7 = 0xC2 \<and> len \<ge> 3 \<and> len \<le> 4 then ''S(Deselect)''
      else if b AND 0xF7 = 0xF2 \<and> len \<ge> 3 \<and> len \<le> 4 then ''S(WTX)''
      else if b AND 0xF6 = 0xA2 \<and> len = 3 then ''R(ACK)''
      else if b AND 0xF6 = 0xB2 \<and> len = 3 then ''R(NACK)''
      else if b AND 0xE2 = 0x02 \<and> len \<ge> 4 then ''I-Block''
      else if b AND 0xE6 = 0xA2 \<and> len = 3 then ''R-Block''
      else if b AND 0xC7 = 0xC2 \<and> len \<ge> 3 \<and> len \<le> 4 then ''S-Block''
      else [])"
  by (simp add: specIsoDep_def specIsoDepPatterns_def)

lemma eventIsoDep_spec:
  "byteAt fr 0 = Inr b \<Longrightarrow> eventIsoDep fr = Inr (specIsoDep b (limit fr))"
  by (simp add: eventIsoDep_def specIsoDep_unfold)

lemma overlay_wins_B:
  assumes "isPollFrame fr \<or> isListenFrame fr" "byteAt fr 0 = Inr b"
    "eventIsoDep fr = Inr l" "l \<noteq> []"
  shows "eventNfcB fr prev = Inr l"
  using assms by (auto simp: eventNfcB_def)

lemma overlay_wins_A_poll:
  assumes "\<not> isEncrypted fr" "isPollFrame fr" "byteAt fr 0 = Inr b"
    "\<not> (b = 0x50 \<and> limit fr = 4)" "\<not> (b AND 0xF0 = 0xD0 \<and> limit fr = 5)"
    "eventIsoDep fr = Inr l" "l \<noteq> []"
  shows "eventNfcA fr prev = Inr l"
  using assms by (auto simp: eventNfcA_def)

lemma overlay_wins_A_listen:
  assumes "\<not> isEncrypted fr" "\<not> isPollFrame fr" "isPollFrame p" "byteAt p 0 = Inr c"
    "\<not> ((c = 0x93 \<or> c = 0x95 \<or> c = 0x97) \<and> (limit fr = 3 \<or> limit fr = 5))"
    "\<not> (c = 0xE0 \<and> byteAt fr 0 = Inr (limit fr - 2))"
    "byteAt fr 0 = Inr b"
    "eventIsoDep fr = Inr l" "l \<noteq> []"
  shows "eventNfcA fr (Some p) = Inr l"
  using assms by (auto simp: eventNfcA_def)

lemma frameEvent_overlay:
  assumes r: "reachesIsoDep fr prev" and b: "byteAt fr 0 = Inr b"
    and l: "eventIsoDep fr = Inr l" "l \<noteq> []"
  shows "frameEvent fr prev = Inr l"
proof (cases "techType fr")
  case NfcA
  show ?thesis
  proof (cases "isPollFrame fr")
    case True
    with r b NfcA l show ?thesis
      by (simp add: reachesIsoDep_def frameEvent_def overlay_wins_A_poll)
  next
    case False
    with r NfcA obtain p c where p: "prev = Some p" "isPollFrame p" "byteAt p 0 = Inr c"
      "\<not> ((c = 0x93 \<or> c = 0x95 \<or> c = 0x97) \<and> (limit fr = 3 \<or> limit fr = 5))"
      "\<not> (c = 0xE0 \<and> byteAt fr 0 = Inr (limit fr - 2))"
      by (auto simp: reachesIsoDep_def split: option.splits sum.splits)
    from r NfcA have "\<not> isEncrypted fr" "\<not> isCarrierOn fr" "\<not> isCarrierOff fr"
      by (simp_all add: reachesIsoDep_def)
    with False p b l NfcA show ?thesis
      by (simp add: frameEvent_def overlay_wins_A_listen)
  qed
next
  case NfcB
  with r b l show ?thesis
    by (simp add: reachesIsoDep_def frameEvent_def overlay_wins_B)
qed (use r in \<open>simp_all add: reachesIsoDep_def\<close>)

text \<open>
  Claim C2, in the scope the code gives it. For a frame that reaches the ISO-DEP overlay,
  \<open>eventIsoDep\<close> returns the label of the first entry of the specification's priority list
  that matches the first byte and the length, or the empty label, and a non-empty label of
  the overlay is the label of \<open>frameEvent\<close>. In particular a frame with first byte 0xC2 and
  length 3 that reaches the overlay is labelled S(Deselect), whatever the tables hold; the
  frames that reach it are the technology-B poll and listen frames, the unencrypted
  technology-A poll frames that are neither HALT nor PPS, and the unencrypted technology-A
  listen frames that follow a poll frame and are neither SAK, UID nor ATS.
\<close>

theorem isoDep_first_match_wins:
  "(byteAt fr 0 = Inr b \<longrightarrow> eventIsoDep fr = Inr (specIsoDep b (limit fr))) \<and>
   (reachesIsoDep fr prev \<and> byteAt fr 0 = Inr b \<and> specIsoDep b (limit fr) \<noteq> [] \<longrightarrow>
      frameEvent fr prev = Inr (specIsoDep b (limit fr))) \<and>
   (reachesIsoDep fr prev \<and> byteAt fr 0 = Inr 0xC2 \<and> limit fr = 3 \<longrightarrow>
      frameEvent fr prev = Inr ''S(Deselect)'') \<and>
   (techType fr = NfcB \<and> (isPollFrame fr \<or> isListenFrame fr) \<longrightarrow> reachesIsoDep fr prev) \<and>
   (techType fr = NfcA \<and> \<not> isEncrypted fr \<and> isPollFrame fr \<and> byteAt fr 0 = Inr 0xC2 \<longrightarrow>
      reachesIsoDep fr prev) \<and>
   (techType fr = NfcA \<and> \<not> isEncrypted fr \<and> isListenFrame fr \<and> prev = Some p \<and>
    isPollFrame p \<and> byteAt p 0 = Inr c \<and> c \<noteq> 0x93 \<and> c \<noteq> 0x95 \<and> c \<noteq> 0x97 \<and>
    byteAt fr 0 = Inr 0xC2 \<and> limit fr = 3 \<longrightarrow> reachesIsoDep fr prev)"
proof (intro conjI impI)
  show "eventIsoDep fr = Inr (specIsoDep b (limit fr))" if "byteAt fr 0 = Inr b"
    using that by (rule eventIsoDep_spec)
  show "frameEvent fr prev = Inr (specIsoDep b (limit fr))"
    if "reachesIsoDep fr prev \<and> byteAt fr 0 = Inr b \<and> specIsoDep b (limit fr) \<noteq> []"
    using that frameEvent_overlay [of fr prev b "specIsoDep b (limit fr)"] eventIsoDep_spec [of fr b]
    by simp
  show "frameEvent fr prev = Inr ''S(Deselect)''"
    if "reachesIsoDep fr prev \<and> byteAt fr 0 = Inr 0xC2 \<and> limit fr = 3"
    using that frameEvent_overlay [of fr prev "0xC2" "''S(Deselect)''"] eventIsoDep_spec [of fr "0xC2"]
    by (simp add: specIsoDep_unfold)
  show "reachesIsoDep fr prev" if "techType fr = NfcB \<and> (isPollFrame fr \<or> isListenFrame fr)"
    using that by (auto simp: reachesIsoDep_def frameType_defs)
  show "reachesIsoDep fr prev"
    if "techType fr = NfcA \<and> \<not> isEncrypted fr \<and> isPollFrame fr \<and> byteAt fr 0 = Inr 0xC2"
    using that by (auto simp: reachesIsoDep_def frameType_defs)
  show "reachesIsoDep fr prev"
    if "techType fr = NfcA \<and> \<not> isEncrypted fr \<and> isListenFrame fr \<and> prev = Some p \<and>
        isPollFrame p \<and> byteAt p 0 = Inr c \<and> c \<noteq> 0x93 \<and> c \<noteq> 0x95 \<and> c \<noteq> 0x97 \<and>
        byteAt fr 0 = Inr 0xC2 \<and> limit fr = 3"
    using that by (auto simp: reachesIsoDep_def frameType_defs)
qed

theorem isoDep_first_match_wins_witness:
  "techType (mkFrame NfcB ListenFrame False [0xC2, 0xE0, 0xB4]) = NfcB \<and>
   isListenFrame (mkFrame NfcB ListenFrame False [0xC2, 0xE0, 0xB4]) \<and>
   reachesIsoDep (mkFrame NfcB ListenFrame False [0xC2, 0xE0, 0xB4]) None \<and>
   byteAt (mkFrame NfcB ListenFrame False [0xC2, 0xE0, 0xB4]) 0 = Inr 0xC2 \<and>
   limit (mkFrame NfcB ListenFrame False [0xC2, 0xE0, 0xB4]) = 3 \<and>
   specIsoDep 0xC2 3 = ''S(Deselect)'' \<and>
   eventIsoDep (mkFrame NfcB ListenFrame False [0xC2, 0xE0, 0xB4]) = Inr ''S(Deselect)'' \<and>
   frameEvent (mkFrame NfcB ListenFrame False [0xC2, 0xE0, 0xB4]) None = Inr ''S(Deselect)'' \<and>
   techType (mkFrame NfcA ListenFrame False [0xC2, 0xE0, 0xB4]) = NfcA \<and>
   \<not> isEncrypted (mkFrame NfcA ListenFrame False [0xC2, 0xE0, 0xB4]) \<and>
   isListenFrame (mkFrame NfcA ListenFrame False [0xC2, 0xE0, 0xB4]) \<and>
   isPollFrame (mkFrame NfcA PollFrame False [0xC2, 0xE0, 0xB4]) \<and>
   frameEvent (mkFrame NfcA ListenFrame False [0xC2, 0xE0, 0xB4])
     (Some (mkFrame NfcA PollFrame False [0xC2, 0xE0, 0xB4])) = Inr ''S(Deselect)''"
  using isoDep_first_match_wins [of "mkFrame NfcB ListenFrame False [0xC2, 0xE0, 0xB4]" "0xC2" None]
    isoDep_first_match_wins [of "mkFrame NfcA ListenFrame False [0xC2, 0xE0, 0xB4]" "0xC2"
      "Some (mkFrame NfcA PollFrame False [0xC2, 0xE0, 0xB4])"
      "mkFrame NfcA PollFrame False [0xC2, 0xE0, 0xB4]" "0xC2"]
  by (simp add: mkFrame_def frameType_defs byteAt_def limit_def specIsoDep_unfold)

text \<open>
  Claim C2 as first stated, for every technology-A frame with first byte 0xC2 and length 3,
  fails: such a listen frame that answers a select command is labelled SAK, and without a
  preceding frame it gets the empty label.
\<close>

theorem isoDep_deselect_counterexample:
  "techType (mkFrame NfcA ListenFrame False [0xC2, 0x00, 0x00]) = NfcA \<and>
   byteAt (mkFrame NfcA ListenFrame False [0xC2, 0x00, 0x00]) 0 = Inr 0xC2 \<and>
   limit (mkFrame NfcA ListenFrame False [0xC2, 0x00, 0x00]) = 3 \<and>
   frameEvent (mkFrame NfcA ListenFrame False [0xC2, 0x00, 0x00])
     (Some (mkFrame NfcA PollFrame False [0x93, 0x70, 0x01, 0x02, 0x03, 0x04, 0x04, 0x00, 0x00]))
     = Inr ''SAK'' \<and>
   frameEvent (mkFrame NfcA ListenFrame False [0xC2, 0x00, 0x00]) None = Inr [] \<and>
   frameEvent (mkFrame NfcA ListenFrame False [0xC2, 0x00, 0x00]) None \<noteq> Inr ''S(Deselect)''"
  by (simp add: mkFrame_def frameType_defs byteAt_def limit_def frameEvent_def eventNfcA_def)

subsection \<open>Technology-A listen frames\<close>

text \<open>
  Claim C3, for frames that are not marked encrypted. For an unencrypted technology-A listen
  frame whose preceding frame is a poll frame: if the poll frame's first byte is 0x93, 0x95
  or 0x97, a 3-byte listen frame is labelled SAK and a 5-byte listen frame UID; if the poll
  frame's first byte is 0xE0 and the listen frame's first byte equals its length minus 2,
  the listen frame is labelled ATS.
\<close>

theorem nfcA_listen_after_poll:
  "techType fr = NfcA \<and> isListenFrame fr \<and> \<not> isEncrypted fr \<and> prev = Some p \<and>
   isPollFrame p \<and> byteAt p 0 = Inr c \<longrightarrow>
     ((c = 0x93 \<or> c = 0x95 \<or> c = 0x97) \<and> limit fr = 3 \<longrightarrow> frameEvent fr prev = Inr ''SAK'') \<and>
     ((c = 0x93 \<or> c = 0x95 \<or> c = 0x97) \<and> limit fr = 5 \<longrightarrow> frameEvent fr prev = Inr ''UID'') \<and>
     (c = 0xE0 \<and> byteAt fr 0 = Inr (limit fr - 2) \<longrightarrow> frameEvent fr prev = Inr ''ATS'')"
  by (auto simp: frameEvent_def eventNfcA_def frameType_defs)

theorem nfcA_listen_after_poll_witness:
  "isListenFrame (mkFrame NfcA ListenFrame False [0x08, 0xB6, 0xDD]) \<and>
   isPollFrame (mkFrame NfcA PollFrame False [0x93, 0x70]) \<and>
   byteAt (mkFrame NfcA PollFrame False [0x93, 0x70]) 0 = Inr 0x93 \<and>
   limit (mkFrame NfcA ListenFrame False [0x08, 0xB6, 0xDD]) = 3 \<and>
   frameEvent (mkFrame NfcA ListenFrame False [0x08, 0xB6, 0xDD])
     (Some (mkFrame NfcA PollFrame False [0x93, 0x70])) = Inr ''SAK'' \<and>
   limit (mkFrame NfcA ListenFrame False [0x01, 0x02, 0x03, 0x04, 0x04]) = 5 \<and>
   frameEvent (mkFrame NfcA ListenFrame False [0x01, 0x02, 0x03, 0x04, 0x04])
     (Some (mkFrame NfcA PollFrame False [0x93, 0x70])) = Inr ''UID'' \<and>
   byteAt (mkFrame NfcA PollFrame False [0xE0, 0x50]) 0 = Inr 0xE0 \<and>
   byteAt (mkFrame NfcA ListenFrame False [0x02, 0x00, 0x00, 0x00]) 0 =
     Inr (limit (mkFrame NfcA ListenFrame False [0x02, 0x00, 0x00, 0x00]) - 2) \<and>
   frameEvent (mkFrame NfcA ListenFrame False [0x02, 0x00, 0x00, 0x00])
     (Some (mkFrame NfcA PollFrame False [0xE0, 0x50])) = Inr ''ATS''"
  using nfcA_listen_after_poll [of "mkFrame NfcA ListenFrame False [0x08, 0xB6, 0xDD]"
      "Some (mkFrame NfcA PollFrame False [0x93, 0x70])" "mkFrame NfcA PollFrame False [0x93, 0x70]"
      "0x93"]
    nfcA_listen_after_poll [of "mkFrame NfcA ListenFrame False [0x01, 0x02, 0x03, 0x04, 0x04]"
      "Some (mkFrame NfcA PollFrame False [0x93, 0x70])" "mkFrame NfcA PollFrame False [0x93, 0x70]"
      "0x93"]
    nfcA_listen_after_poll [of "mkFrame NfcA ListenFrame False [0x02, 0x00, 0x00, 0x00]"
      "Some (mkFrame NfcA PollFrame False [0xE0, 0x50])" "mkFrame NfcA PollFrame False [0xE0, 0x50]"
      "0xE0"]
  by (simp add: mkFrame_def frameType_defs byteAt_def limit_def)

text \<open>
  Claim C3 as first stated, for every technology-A listen frame, fails on a frame marked
  encrypted: the 3-byte answer to a select command then gets the empty label, not SAK.
\<close>

theorem nfcA_listen_encrypted_counterexample:
  "techType (mkFrame NfcA ListenFrame True [0x08, 0xB6, 0xDD]) = NfcA \<and>
   isListenFrame (mkFrame NfcA ListenFrame True [0x08, 0xB6, 0xDD]) \<and>
   isPollFrame (mkFrame NfcA PollFrame False [0x93, 0x70]) \<and>
   byteAt (mkFrame NfcA PollFrame False [0x93, 0x70]) 0 = Inr 0x93 \<and>
   limit (mkFrame NfcA ListenFrame True [0x08, 0xB6, 0xDD]) = 3 \<and>
   frameEvent (mkFrame NfcA ListenFrame True [0x08, 0xB6, 0xDD])
     (Some (mkFrame NfcA PollFrame False [0x93, 0x70])) = Inr [] \<and>
   frameEvent (mkFrame NfcA ListenFrame True [0x08, 0xB6, 0xDD])
     (Some (mkFrame NfcA PollFrame False [0x93, 0x70])) \<noteq> Inr ''SAK''"
  by (simp add: mkFrame_def frameType_defs byteAt_def limit_def frameEvent_def eventNfcA_def)

subsection \<open>Technologies F and V\<close>

declare toBase16.simps [simp del]

lemma toBase16_small: "n < 16 \<Longrightarrow> toBase16 n = [hexDigit n]"
  by (subst toBase16.simps) simp

lemma toBase16_byte:
  "16 \<le> n \<Longrightarrow> n < 256 \<Longrightarrow> toBase16 n = [hexDigit (n div 16), hexDigit (n mod 16)]"
  by (subst toBase16.simps) (simp add: toBase16_small)

lemma hexDigit_0: "hexDigit 0 = CHR ''0''"
  by (simp add: hexDigit_def)

lemma cmdLabel_byte:
  assumes "0 \<le> c" "c < 256"
  shows "cmdLabel c = ''CMD '' @ [hexDigit (nat c div 16), hexDigit (nat c mod 16)]"
proof (cases "nat c < 16")
  case True
  then show ?thesis
    by (simp add: cmdLabel_def argHex_def toBase16_small hexDigit_0)
next
  case False
  with assms have "16 \<le> nat c" "nat c < 256"
    by auto
  then show ?thesis
    by (simp add: cmdLabel_def argHex_def toBase16_byte)
qed

text \<open>
  Claim C4, with the digits Qt writes. For frames that have a byte at index 1, technology F
  looks that byte up for poll and for listen frames and technology V for poll frames only.
  A technology-F or technology-V poll frame whose byte is in no table is labelled \<open>CMD\<close>
  followed by the byte as two hexadecimal digits with the lower-case letters \<open>a\<close> to \<open>f\<close>;
  a technology-F listen frame whose byte is not in the table gets the empty label, and so
  does every technology-V listen frame.
\<close>

theorem nfcF_nfcV_key_on_second_byte:
  "(techType fr = NfcF \<and> isPollFrame fr \<and> byteAt fr 1 = Inr c \<longrightarrow>
      frameEvent fr prev =
        Inr (case map_of NfcFCmd c of Some name \<Rightarrow> name | None \<Rightarrow> cmdLabel c)) \<and>
   (techType fr = NfcF \<and> isListenFrame fr \<and> byteAt fr 1 = Inr c \<longrightarrow>
      frameEvent fr prev = Inr (case map_of NfcFResp c of Some name \<Rightarrow> name | None \<Rightarrow> [])) \<and>
   (techType fr = NfcV \<and> isPollFrame fr \<and> byteAt fr 1 = Inr c \<longrightarrow>
      frameEvent fr prev =
        Inr (case map_of NfcVCmd c of Some name \<Rightarrow> name | None \<Rightarrow> cmdLabel c)) \<and>
   (techType fr = NfcV \<and> isListenFrame fr \<longrightarrow> frameEvent fr prev = Inr []) \<and>
   (byteAt fr 1 = Inr c \<longrightarrow>
      cmdLabel c = ''CMD '' @ [hexDigit (nat c div 16), hexDigit (nat c mod 16)])"
proof -
  have "cmdLabel c = ''CMD '' @ [hexDigit (nat c div 16), hexDigit (nat c mod 16)]"
    if "byteAt fr 1 = Inr c"
  proof -
    from that have "c = uint (payload fr ! 1)"
      by (auto simp: byteAt_def split: if_splits)
    moreover have "uint (payload fr ! 1) < 256"
      using uint_bounded [of "payload fr ! 1"] by simp
    ultimately show ?thesis
      by (intro cmdLabel_byte) simp_all
  qed
  then show ?thesis
    by (auto simp: frameEvent_def eventNfcF_def eventNfcV_def lookupOrEmpty_def frameType_defs
        split: option.splits)
qed

theorem nfcF_nfcV_key_on_second_byte_witness:
  "byteAt (mkFrame NfcF PollFrame False [0xFF, 0x00]) 1 = Inr 0x00 \<and>
   frameEvent (mkFrame NfcF PollFrame False [0xFF, 0x00]) None = Inr ''REQC'' \<and>
   byteAt (mkFrame NfcF ListenFrame False [0x12, 0x3C]) 1 = Inr 0x3C \<and>
   frameEvent (mkFrame NfcF ListenFrame False [0x12, 0x3C]) None = Inr [] \<and>
   byteAt (mkFrame NfcV PollFrame False [0x26, 0xAB]) 1 = Inr 0xAB \<and>
   frameEvent (mkFrame NfcV PollFrame False [0x26, 0xAB]) None = Inr ''CMD ab'' \<and>
   frameEvent (mkFrame NfcV ListenFrame False [0x00]) None = Inr []"
  using nfcF_nfcV_key_on_second_byte [of "mkFrame NfcF PollFrame False [0xFF, 0x00]" "0x00" None]
    nfcF_nfcV_key_on_second_byte [of "mkFrame NfcF ListenFrame False [0x12, 0x3C]" "0x3C" None]
    nfcF_nfcV_key_on_second_byte [of "mkFrame NfcV PollFrame False [0x26, 0xAB]" "0xAB" None]
    nfcF_nfcV_key_on_second_byte [of "mkFrame NfcV ListenFrame False [0x00]" "0x00" None]
  by (simp add: mkFrame_def frameType_defs byteAt_def NfcFCmd_def NfcFResp_def NfcVCmd_def
      hexDigit_def)

text \<open>
  Claim C4 as first stated, with upper-case hexadecimal digits, fails: the technology-F poll
  frame with command byte 0xAB, which is in no table, is labelled \<open>CMD ab\<close>.
\<close>

theorem nfcF_cmd_label_counterexample:
  "techType (mkFrame NfcF PollFrame False [0x00, 0xAB]) = NfcF \<and>
   isPollFrame (mkFrame NfcF PollFrame False [0x00, 0xAB]) \<and>
   byteAt (mkFrame NfcF PollFrame False [0x00, 0xAB]) 1 = Inr 0xAB \<and>
   map_of NfcFCmd 0xAB = None \<and>
   specCmdLabel 0xAB = ''CMD AB'' \<and>
   frameEvent (mkFrame NfcF PollFrame False [0x00, 0xAB]) None = Inr ''CMD ab'' \<and>
   frameEvent (mkFrame NfcF PollFrame False [0x00, 0xAB]) None \<noteq> Inr (specCmdLabel 0xAB)"
  by (simp add: mkFrame_def frameType_defs byteAt_def NfcFCmd_def specCmdLabel_def
      specHexDigit_def frameEvent_def eventNfcF_def cmdLabel_byte hexDigit_def)

subsection \<open>Totality and bounds\<close>











































section \<open>Properties of the frame stream\<close>

lemma fetchLoop_drains: "fetchLoop fs st = (fs @ st, [])"
  by (induction st arbitrary: fs) simp_all

lemma fetchMore_drains: "fetchMore m = \<lparr>frames = frames m @ stream m, stream = []\<rparr>"
  by (simp add: fetchMore_def fetchLoop_drains)

lemma foldl_append: "foldl append m fs = m\<lparr>stream := stream m @ fs\<rparr>"
  by (induction fs arbitrary: m) (simp_all add: append_def)

lemma index_row:
  "i < length (frames m) \<Longrightarrow> index m (int i) 0 = ModelIndex (int i) 0 (frames m ! i)"
  by (simp add: index_def hasIndex_def rowCount_def columnCount_def headers_def)

lemma leDouble_NegInf: "leDouble NegInf t = (t \<noteq> NaN)"
  by (cases t) simp_all

lemma leDouble_PosInf: "leDouble t PosInf = (t \<noteq> NaN)"
  by (cases t) simp_all

lemma modelRange_unbounded:
  "modelRange m NegInf PosInf =
     map (\<lambda>i. ModelIndex (int i) 0 (frames m ! i))
       (filter (\<lambda>i. timeStart (frames m ! i) \<noteq> NaN \<and> timeEnd (frames m ! i) \<noteq> NaN)
          [0..<length (frames m)])"
  by (simp add: modelRange_def geDouble_def leDouble_NegInf leDouble_PosInf index_row)

lemma nth_filter_upt:
  "map (\<lambda>i. xs ! i) (filter (\<lambda>i. P (xs ! i)) [0..<length xs]) = filter P xs"
proof (induction xs rule: rev_induct)
  case Nil
  show ?case by simp
next
  case (snoc x xs)
  have "map (\<lambda>i. (xs @ [x]) ! i) (filter (\<lambda>i. P ((xs @ [x]) ! i)) [0..<length xs]) =
      map (\<lambda>i. xs ! i) (filter (\<lambda>i. P (xs ! i)) [0..<length xs])"
    by (intro map_cong filter_cong) (auto simp: nth_append)
  with snoc show ?case
    by simp
qed

lemma frames_of_unbounded_range:
  "map frame (modelRange m NegInf PosInf) =
     map Some (filter (\<lambda>f. timeStart f \<noteq> NaN \<and> timeEnd f \<noteq> NaN) (frames m))"
proof -
  let ?P = "\<lambda>f. timeStart f \<noteq> NaN \<and> timeEnd f \<noteq> NaN"
  have "map frame (modelRange m NegInf PosInf) =
      map Some (map (\<lambda>i. frames m ! i) (filter (\<lambda>i. ?P (frames m ! i)) [0..<length (frames m)]))"
    by (simp add: modelRange_unbounded frame_def comp_def)
  also have "\<dots> = map Some (filter ?P (frames m))"
    using nth_filter_upt [of "frames m" ?P] by simp
  finally show ?thesis .
qed

lemma only_fetchMore_moves:
  "op \<noteq> FetchMore \<Longrightarrow>
     (frames (perform m op) = frames m \<or> frames (perform m op) = []) \<and>
     (\<exists>new. stream (perform m op) = stream m @ new)"
  by (cases op) (simp_all add: append_def resetModel_def)

text \<open>
  Claim C7, for timestamps that are numbers. After any sequence of \<open>append\<close> calls on a new
  model, \<open>fetchMore\<close> (the specification's materialize) drains the pending queue, and
  \<open>modelRange\<close> over the window from minus infinity to plus infinity then returns, in the
  order of the \<open>append\<close> calls and with their row numbers, exactly the frames whose start
  and end timestamps are not NaN; when no appended frame has a NaN timestamp, these are
  all the frames, in rows 0, 1, 2, ... On a model that already holds frames, the frames it
  had come first, then the ones that were pending, then the appended ones. \<open>append\<close>
  only puts the frame at the end of the pending queue. \<open>fetchMore\<close> moves the whole
  pending queue to the end of the visible list, and no other operation moves a frame from
  the pending queue to the visible list: it leaves the visible list as it is or empties it,
  and it removes nothing from the pending queue.
\<close>

theorem materialize_keeps_append_order:
  "map frame (modelRange (fetchMore (foldl append newStreamModel fs)) NegInf PosInf) =
     map Some (filter (\<lambda>f. timeStart f \<noteq> NaN \<and> timeEnd f \<noteq> NaN) fs) \<and>
   modelRange (fetchMore (foldl append newStreamModel fs)) NegInf PosInf =
     map (\<lambda>i. ModelIndex (int i) 0 (fs ! i))
       (filter (\<lambda>i. timeStart (fs ! i) \<noteq> NaN \<and> timeEnd (fs ! i) \<noteq> NaN) [0..<length fs]) \<and>
   ((\<forall>f\<in>set fs. timeStart f \<noteq> NaN \<and> timeEnd f \<noteq> NaN) \<longrightarrow>
      map frame (modelRange (fetchMore (foldl append newStreamModel fs)) NegInf PosInf) =
        map Some fs \<and>
      modelRange (fetchMore (foldl append newStreamModel fs)) NegInf PosInf =
        map (\<lambda>i. ModelIndex (int i) 0 (fs ! i)) [0..<length fs]) \<and>
   map frame (modelRange (fetchMore (foldl append m fs)) NegInf PosInf) =
     map Some
       (filter (\<lambda>f. timeStart f \<noteq> NaN \<and> timeEnd f \<noteq> NaN) (frames m @ stream m @ fs)) \<and>
   frames (append m f) = frames m \<and> stream (append m f) = stream m @ [f] \<and>
   frames (fetchMore m) = frames m @ stream m \<and> stream (fetchMore m) = [] \<and>
   (op \<noteq> FetchMore \<longrightarrow>
      (frames (perform m op) = frames m \<or> frames (perform m op) = []) \<and>
      (\<exists>new. stream (perform m op) = stream m @ new))"
proof (intro conjI)
  let ?P = "\<lambda>f. timeStart f \<noteq> NaN \<and> timeEnd f \<noteq> NaN"
  have fresh: "fetchMore (foldl append newStreamModel fs) = \<lparr>frames = fs, stream = []\<rparr>"
    by (simp add: fetchMore_drains foldl_append newStreamModel_def)
  show frs: "map frame (modelRange (fetchMore (foldl append newStreamModel fs)) NegInf PosInf) =
      map Some (filter ?P fs)"
    by (simp only: fresh frames_of_unbounded_range) simp
  show rows: "modelRange (fetchMore (foldl append newStreamModel fs)) NegInf PosInf =
      map (\<lambda>i. ModelIndex (int i) 0 (fs ! i))
        (filter (\<lambda>i. timeStart (fs ! i) \<noteq> NaN \<and> timeEnd (fs ! i) \<noteq> NaN) [0..<length fs])"
    by (simp only: fresh modelRange_unbounded) simp
  show "(\<forall>f\<in>set fs. timeStart f \<noteq> NaN \<and> timeEnd f \<noteq> NaN) \<longrightarrow>
      map frame (modelRange (fetchMore (foldl append newStreamModel fs)) NegInf PosInf) =
        map Some fs \<and>
      modelRange (fetchMore (foldl append newStreamModel fs)) NegInf PosInf =
        map (\<lambda>i. ModelIndex (int i) 0 (fs ! i)) [0..<length fs]"
  proof
    assume a: "\<forall>f\<in>set fs. timeStart f \<noteq> NaN \<and> timeEnd f \<noteq> NaN"
    then have f1: "filter ?P fs = fs"
      by simp
    from a have f2:
      "filter (\<lambda>i. timeStart (fs ! i) \<noteq> NaN \<and> timeEnd (fs ! i) \<noteq> NaN) [0..<length fs] =
        [0..<length fs]"
      by (auto intro!: filter_True)
    from frs rows show "map frame
        (modelRange (fetchMore (foldl append newStreamModel fs)) NegInf PosInf) = map Some fs \<and>
      modelRange (fetchMore (foldl append newStreamModel fs)) NegInf PosInf =
        map (\<lambda>i. ModelIndex (int i) 0 (fs ! i)) [0..<length fs]"
      by (simp only: f1 f2)
  qed
  show "map frame (modelRange (fetchMore (foldl append m fs)) NegInf PosInf) =
      map Some (filter ?P (frames m @ stream m @ fs))"
    by (simp only: frames_of_unbounded_range) (simp add: fetchMore_drains foldl_append)
  show "frames (append m f) = frames m" "stream (append m f) = stream m @ [f]"
    by (simp_all add: append_def)
  show "frames (fetchMore m) = frames m @ stream m" "stream (fetchMore m) = []"
    by (simp_all add: fetchMore_drains)
  show "op \<noteq> FetchMore \<longrightarrow>
      (frames (perform m op) = frames m \<or> frames (perform m op) = []) \<and>
      (\<exists>new. stream (perform m op) = stream m @ new)"
    using only_fetchMore_moves [of op m] by blast
qed

theorem materialize_keeps_append_order_witness:
  "timeStart (mkFrame NfcA PollFrame False [0x26]) \<noteq> NaN \<and>
   timeEnd (mkFrame NfcA PollFrame False [0x26]) \<noteq> NaN \<and>
   timeStart (mkFrame NfcA ListenFrame False [0x04, 0x00]) \<noteq> NaN \<and>
   timeEnd (mkFrame NfcA ListenFrame False [0x04, 0x00]) \<noteq> NaN \<and>
   Append (mkFrame NfcA ListenFrame False [0x04, 0x00]) \<noteq> FetchMore \<and>
   frames (perform \<lparr>frames = [], stream = [mkFrame NfcA PollFrame False [0x26]]\<rparr>
             (Append (mkFrame NfcA ListenFrame False [0x04, 0x00]))) = [] \<and>
   map frame
     (modelRange
        (fetchMore
           (foldl append newStreamModel
              [mkFrame NfcA PollFrame False [0x26], mkFrame NfcA ListenFrame False [0x04, 0x00]]))
        NegInf PosInf) =
     [Some (mkFrame NfcA PollFrame False [0x26]),
      Some (mkFrame NfcA ListenFrame False [0x04, 0x00])]"
  using materialize_keeps_append_order
    [of "[mkFrame NfcA PollFrame False [0x26], mkFrame NfcA ListenFrame False [0x04, 0x00]]"
      "\<lparr>frames = [], stream = [mkFrame NfcA PollFrame False [0x26]]\<rparr>"
      "mkFrame NfcA ListenFrame False [0x04, 0x00]"
      "Append (mkFrame NfcA ListenFrame False [0x04, 0x00])"]
  by (simp add: append_def frame_def mkFrame_def)

text \<open>
  Claim C7 as first stated, for every sequence of frames, fails on a frame whose start
  timestamp is NaN: \<open>modelRange\<close> compares it with \<open>>=\<close>, which is false for NaN also
  against minus infinity, so the frame is in the visible list after \<open>fetchMore\<close> and
  missing from the unbounded window.
\<close>

theorem materialize_nan_timestamp_counterexample:
  "frames (fetchMore (foldl append newStreamModel
      [mkFrame NfcA PollFrame False [0x26],
       (mkFrame NfcA ListenFrame False [0x04, 0x00])\<lparr>timeStart := NaN\<rparr>])) =
     [mkFrame NfcA PollFrame False [0x26],
      (mkFrame NfcA ListenFrame False [0x04, 0x00])\<lparr>timeStart := NaN\<rparr>] \<and>
   map frame (modelRange (fetchMore (foldl append newStreamModel
      [mkFrame NfcA PollFrame False [0x26],
       (mkFrame NfcA ListenFrame False [0x04, 0x00])\<lparr>timeStart := NaN\<rparr>]))
      NegInf PosInf) = [Some (mkFrame NfcA PollFrame False [0x26])]"
  by (simp add: fetchMore_drains append_def newStreamModel_def frames_of_unbounded_range
      mkFrame_def)

section \<open>Properties of the capture callback\<close>

lemma storeBuffer_queue:
  assumes "storeBuffer el d b = (d', dl)"
  shows "streamCallback d' = streamCallback d"
    and "\<exists>e. dl = Queued e b \<and> evictions [dl] @ streamQueue d' = streamQueue d @ [b] \<and>
           samplesDropped d' = samplesDropped d + sum_list (map el (evictions [dl])) \<and>
           length (evictions [dl]) = (if 4 \<le> length (streamQueue d) then 1 else 0)"
proof -
  have "hd (streamQueue d) # tl (streamQueue d) = streamQueue d" if "4 \<le> length (streamQueue d)"
    using that by (cases "streamQueue d") simp_all
  with assms show "streamCallback d' = streamCallback d"
    and "\<exists>e. dl = Queued e b \<and> evictions [dl] @ streamQueue d' = streamQueue d @ [b] \<and>
           samplesDropped d' = samplesDropped d + sum_list (map el (evictions [dl])) \<and>
           length (evictions [dl]) = (if 4 \<le> length (streamQueue d) then 1 else 0)"
    by (auto simp: storeBuffer_def MAX_QUEUE_SIZE_def split: if_splits)
qed

lemma Airspy_step:
  assumes "streamCallback d = None"
  shows "\<exists>d' dl. Airspy_process_transfer el (Some d) t = (0, Some d', dl) \<and>
           streamCallback d' = None \<and>
           queued [dl] = [Airspy_buffer d t] \<and>
           evictions [dl] @ streamQueue d' = streamQueue d @ queued [dl] \<and>
           samplesDropped d' =
             samplesDropped d + dropped_samples t + sum_list (map el (evictions [dl])) \<and>
           length (evictions [dl]) = (if 4 \<le> length (streamQueue d) then 1 else 0)"
proof -
  let ?d1 = "d\<lparr>samplesReceived := samplesReceived d + sample_count t,
                samplesDropped := samplesDropped d + dropped_samples t\<rparr>"
  obtain d' dl where s: "storeBuffer el ?d1 (Airspy_buffer d t) = (d', dl)"
    by (cases "storeBuffer el ?d1 (Airspy_buffer d t)")
  from storeBuffer_queue [OF s] assms
  have "Airspy_process_transfer el (Some d) t = (0, Some d', dl)"
    by (simp add: Airspy_process_transfer_def Let_def s)
  with storeBuffer_queue [OF s] assms show ?thesis
    by auto
qed

lemma Miri_step:
  assumes "streamCallback d = None"
  shows "\<exists>d' dl. Miri_process_transfer el (Some d) len = (0, Some d', dl) \<and>
           streamCallback d' = None \<and>
           queued [dl] = [emptyBuffer] \<and>
           evictions [dl] @ streamQueue d' = streamQueue d @ queued [dl] \<and>
           samplesDropped d' = samplesDropped d + sum_list (map el (evictions [dl])) \<and>
           length (evictions [dl]) = (if 4 \<le> length (streamQueue d) then 1 else 0)"
proof -
  let ?d1 = "d\<lparr>samplesReceived := samplesReceived d + len\<rparr>"
  obtain d' dl where s: "storeBuffer el ?d1 emptyBuffer = (d', dl)"
    by (cases "storeBuffer el ?d1 emptyBuffer")
  from storeBuffer_queue [OF s] assms
  have "Miri_process_transfer el (Some d) len = (0, Some d', dl)"
    by (simp add: Miri_process_transfer_def Let_def s)
  with storeBuffer_queue [OF s] assms show ?thesis
    by auto
qed

lemma evictions_Cons: "evictions (dl # ds) = evictions [dl] @ evictions ds"
proof (cases dl)
  case (Queued e b)
  then show ?thesis by (cases e) simp_all
qed simp_all

lemma queued_Cons: "queued (dl # ds) = queued [dl] @ queued ds"
  by (cases dl) auto

lemma Airspy_run:
  assumes "streamCallback d = None" "Airspy_deliverAll el d ts = (d', ds)"
  shows "streamCallback d' = None \<and> length (queued ds) = length ts \<and>
         evictions ds @ streamQueue d' = streamQueue d @ queued ds \<and>
         samplesDropped d' =
           samplesDropped d + sum_list (map dropped_samples ts) + sum_list (map el (evictions ds)) \<and>
         (length (streamQueue d) \<le> 4 \<longrightarrow>
            length (streamQueue d') = min 4 (length (streamQueue d) + length ts))"
  using assms
proof (induction ts arbitrary: d d' ds)
  case Nil
  then show ?case by simp
next
  case (Cons t ts)
  from Airspy_step [OF Cons.prems(1), of el t] obtain d1 dl where
    step: "Airspy_process_transfer el (Some d) t = (0, Some d1, dl)"
      "streamCallback d1 = None" "queued [dl] = [Airspy_buffer d t]"
      "evictions [dl] @ streamQueue d1 = streamQueue d @ queued [dl]"
      "samplesDropped d1 = samplesDropped d + dropped_samples t + sum_list (map el (evictions [dl]))"
      "length (evictions [dl]) = (if 4 \<le> length (streamQueue d) then 1 else 0)"
    by blast
  obtain d2 ds2 where rest: "Airspy_deliverAll el d1 ts = (d2, ds2)"
    by (cases "Airspy_deliverAll el d1 ts")
  with step(1) Cons.prems(2) have eq: "d' = d2" "ds = dl # ds2"
    by simp_all
  note ih = Cons.IH [OF step(2) rest]
  have len1: "length (streamQueue d1) = length (streamQueue d) + 1 - length (evictions [dl])"
    using arg_cong [OF step(4), of length] step(3) by simp
  have "evictions ds @ streamQueue d' = streamQueue d @ queued ds"
    using ih step(4) eq evictions_Cons [of dl ds2] queued_Cons [of dl ds2] by simp
  moreover have "samplesDropped d' =
      samplesDropped d + sum_list (map dropped_samples (t # ts)) + sum_list (map el (evictions ds))"
    using ih step(5) eq evictions_Cons [of dl ds2] by simp
  moreover have "length (queued ds) = length (t # ts)"
    using ih step(3) eq queued_Cons [of dl ds2] by simp
  moreover have "length (streamQueue d') = min 4 (length (streamQueue d) + length (t # ts))"
    if "length (streamQueue d) \<le> 4"
    using that ih len1 step(6) eq by (auto split: if_splits)
  ultimately show ?case
    using ih eq by simp
qed

lemma Miri_run:
  assumes "streamCallback d = None" "Miri_deliverAll el d lens = (d', ds)"
  shows "streamCallback d' = None \<and> length (queued ds) = length lens \<and>
         evictions ds @ streamQueue d' = streamQueue d @ queued ds \<and>
         samplesDropped d' = samplesDropped d + sum_list (map el (evictions ds)) \<and>
         (length (streamQueue d) \<le> 4 \<longrightarrow>
            length (streamQueue d') = min 4 (length (streamQueue d) + length lens))"
  using assms
proof (induction lens arbitrary: d d' ds)
  case Nil
  then show ?case by simp
next
  case (Cons len lens)
  from Miri_step [OF Cons.prems(1), of el len] obtain d1 dl where
    step: "Miri_process_transfer el (Some d) len = (0, Some d1, dl)"
      "streamCallback d1 = None" "queued [dl] = [emptyBuffer]"
      "evictions [dl] @ streamQueue d1 = streamQueue d @ queued [dl]"
      "samplesDropped d1 = samplesDropped d + sum_list (map el (evictions [dl]))"
      "length (evictions [dl]) = (if 4 \<le> length (streamQueue d) then 1 else 0)"
    by blast
  obtain d2 ds2 where rest: "Miri_deliverAll el d1 lens = (d2, ds2)"
    by (cases "Miri_deliverAll el d1 lens")
  with step(1) Cons.prems(2) have eq: "d' = d2" "ds = dl # ds2"
    by simp_all
  note ih = Cons.IH [OF step(2) rest]
  have len1: "length (streamQueue d1) = length (streamQueue d) + 1 - length (evictions [dl])"
    using arg_cong [OF step(4), of length] step(3) by simp
  have "evictions ds @ streamQueue d' = streamQueue d @ queued ds"
    using ih step(4) eq evictions_Cons [of dl ds2] queued_Cons [of dl ds2] by simp
  moreover have "samplesDropped d' = samplesDropped d + sum_list (map el (evictions ds))"
    using ih step(5) eq evictions_Cons [of dl ds2] by simp
  moreover have "length (queued ds) = length (len # lens)"
    using ih step(3) eq queued_Cons [of dl ds2] by simp
  moreover have "length (streamQueue d') = min 4 (length (streamQueue d) + length (len # lens))"
    if "length (streamQueue d) \<le> 4"
    using that ih len1 step(6) eq by (auto split: if_splits)
  ultimately show ?case
    using ih eq by simp
qed

lemma overflow_shape:
  assumes "ev @ q' = qd" "length qd = n" "length q' = min 4 n" "4 < n"
  shows "length ev = n - 4 \<and> ev = take (n - 4) qd \<and> q' = drop (n - 4) qd \<and> length q' = 4"
proof -
  have "length ev + length q' = n"
    using assms(1,2) by auto
  with assms(3,4) have l: "length ev = n - 4"
    by simp
  with assms(1) have "take (n - 4) qd = ev" "drop (n - 4) qd = q'"
    by auto
  with l assms show ?thesis by simp
qed

text \<open>
  Claim C1, with the drops the Airspy driver reports. On the Airspy and on the Miri backend,
  with no stream callback registered, an empty stream queue and \<open>samplesDropped\<close> at zero,
  the delivery of K > 4 buffers through \<open>process_transfer\<close> removes the oldest queued buffer
  exactly K - 4 times: the removed buffers are the first K - 4 that were queued, the last 4
  stay in the queue, and the queue never holds more than 4 buffers. Afterwards
  \<open>samplesDropped\<close> is the sum of the sample counts of the removed buffers, plus, on the
  Airspy backend, the sum of the \<open>dropped_samples\<close> counts of the K transfers. The sample
  count of a buffer is what \<open>elements()\<close> returns, here the function \<open>el\<close>.
\<close>

theorem overflow_evicts_oldest:
  "(streamCallback d = None \<and> streamQueue d = [] \<and> samplesDropped d = 0 \<and> 4 < length ts \<and>
    Airspy_deliverAll el d ts = (d', ds) \<longrightarrow>
      length (evictions ds) = length ts - 4 \<and>
      evictions ds = take (length ts - 4) (queued ds) \<and>
      streamQueue d' = drop (length ts - 4) (queued ds) \<and>
      length (streamQueue d') = 4 \<and>
      samplesDropped d' = sum_list (map el (evictions ds)) + sum_list (map dropped_samples ts)) \<and>
   (streamCallback d = None \<and> streamQueue d = [] \<and> samplesDropped d = 0 \<and> 4 < length lens \<and>
    Miri_deliverAll el d lens = (d', ds) \<longrightarrow>
      length (evictions ds) = length lens - 4 \<and>
      evictions ds = take (length lens - 4) (queued ds) \<and>
      streamQueue d' = drop (length lens - 4) (queued ds) \<and>
      length (streamQueue d') = 4 \<and>
      samplesDropped d' = sum_list (map el (evictions ds))) \<and>
   (streamCallback d = None \<and> length (streamQueue d) \<le> 4 \<and>
    Airspy_deliverAll el d ts = (d', ds) \<longrightarrow> length (streamQueue d') \<le> 4) \<and>
   (streamCallback d = None \<and> length (streamQueue d) \<le> 4 \<and>
    Miri_deliverAll el d lens = (d', ds) \<longrightarrow> length (streamQueue d') \<le> 4)"
proof (intro conjI impI)
  assume a: "streamCallback d = None \<and> streamQueue d = [] \<and> samplesDropped d = 0 \<and>
    4 < length ts \<and> Airspy_deliverAll el d ts = (d', ds)"
  then have r: "length (queued ds) = length ts" "evictions ds @ streamQueue d' = queued ds"
    "samplesDropped d' = sum_list (map dropped_samples ts) + sum_list (map el (evictions ds))"
    "length (streamQueue d') = min 4 (length ts)"
    using Airspy_run [of d el ts d' ds] by simp_all
  from overflow_shape [OF r(2) r(1) r(4)] a r(1) r(3)
  show "length (evictions ds) = length ts - 4"
    "evictions ds = take (length ts - 4) (queued ds)"
    "streamQueue d' = drop (length ts - 4) (queued ds)"
    "length (streamQueue d') = 4"
    "samplesDropped d' = sum_list (map el (evictions ds)) + sum_list (map dropped_samples ts)"
    by simp_all
next
  assume a: "streamCallback d = None \<and> streamQueue d = [] \<and> samplesDropped d = 0 \<and>
    4 < length lens \<and> Miri_deliverAll el d lens = (d', ds)"
  then have r: "length (queued ds) = length lens" "evictions ds @ streamQueue d' = queued ds"
    "samplesDropped d' = sum_list (map el (evictions ds))"
    "length (streamQueue d') = min 4 (length lens)"
    using Miri_run [of d el lens d' ds] by simp_all
  from overflow_shape [OF r(2) r(1) r(4)] a r(1) r(3)
  show "length (evictions ds) = length lens - 4"
    "evictions ds = take (length lens - 4) (queued ds)"
    "streamQueue d' = drop (length lens - 4) (queued ds)"
    "length (streamQueue d') = 4"
    "samplesDropped d' = sum_list (map el (evictions ds))"
    by simp_all
next
  assume "streamCallback d = None \<and> length (streamQueue d) \<le> 4 \<and>
    Airspy_deliverAll el d ts = (d', ds)"
  then show "length (streamQueue d') \<le> 4"
    using Airspy_run [of d el ts d' ds] by simp
next
  assume "streamCallback d = None \<and> length (streamQueue d) \<le> 4 \<and>
    Miri_deliverAll el d lens = (d', ds)"
  then show "length (streamQueue d') \<le> 4"
    using Miri_run [of d el lens d' ds] by simp
qed

lemmas capture_defs =
  Airspy_process_transfer_def Miri_process_transfer_def storeBuffer_def Airspy_buffer_def
  emptyBuffer_def newImpl_def mkTransfer_def MAX_QUEUE_SIZE_def Let_def

theorem overflow_evicts_oldest_witness:
  "streamCallback (newImpl ''airspy://1'' 0) = None \<and>
   streamQueue (newImpl ''airspy://1'' 0) = [] \<and>
   samplesDropped (newImpl ''airspy://1'' 0) = 0 \<and>
   length (evictions (snd (Airspy_deliverAll bufLength (newImpl ''airspy://1'' 0)
     [mkTransfer 10 0 AIRSPY_SAMPLE_FLOAT32_REAL, mkTransfer 20 3 AIRSPY_SAMPLE_FLOAT32_REAL,
      mkTransfer 30 0 AIRSPY_SAMPLE_FLOAT32_REAL, mkTransfer 40 0 AIRSPY_SAMPLE_FLOAT32_REAL,
      mkTransfer 50 0 AIRSPY_SAMPLE_FLOAT32_REAL, mkTransfer 60 0 AIRSPY_SAMPLE_FLOAT32_REAL])))
     = 2 \<and>
   samplesDropped (fst (Airspy_deliverAll bufLength (newImpl ''airspy://1'' 0)
     [mkTransfer 10 0 AIRSPY_SAMPLE_FLOAT32_REAL, mkTransfer 20 3 AIRSPY_SAMPLE_FLOAT32_REAL,
      mkTransfer 30 0 AIRSPY_SAMPLE_FLOAT32_REAL, mkTransfer 40 0 AIRSPY_SAMPLE_FLOAT32_REAL,
      mkTransfer 50 0 AIRSPY_SAMPLE_FLOAT32_REAL, mkTransfer 60 0 AIRSPY_SAMPLE_FLOAT32_REAL]))
     = (10 + 20) + 3 \<and>
   length (evictions (snd (Miri_deliverAll bufLength (newImpl ''miri://1'' 0)
     [512, 512, 512, 512, 512]))) = 1 \<and>
   length (streamQueue (fst (Miri_deliverAll bufLength (newImpl ''miri://1'' 0)
     [512, 512, 512, 512, 512]))) = 4 \<and>
   samplesDropped (fst (Miri_deliverAll bufLength (newImpl ''miri://1'' 0)
     [512, 512, 512, 512, 512])) = 0"
  using overflow_evicts_oldest [of "newImpl ''airspy://1'' 0"
      "[mkTransfer 10 0 AIRSPY_SAMPLE_FLOAT32_REAL, mkTransfer 20 3 AIRSPY_SAMPLE_FLOAT32_REAL,
        mkTransfer 30 0 AIRSPY_SAMPLE_FLOAT32_REAL, mkTransfer 40 0 AIRSPY_SAMPLE_FLOAT32_REAL,
        mkTransfer 50 0 AIRSPY_SAMPLE_FLOAT32_REAL, mkTransfer 60 0 AIRSPY_SAMPLE_FLOAT32_REAL]"
      bufLength
      "fst (Airspy_deliverAll bufLength (newImpl ''airspy://1'' 0)
        [mkTransfer 10 0 AIRSPY_SAMPLE_FLOAT32_REAL, mkTransfer 20 3 AIRSPY_SAMPLE_FLOAT32_REAL,
         mkTransfer 30 0 AIRSPY_SAMPLE_FLOAT32_REAL, mkTransfer 40 0 AIRSPY_SAMPLE_FLOAT32_REAL,
         mkTransfer 50 0 AIRSPY_SAMPLE_FLOAT32_REAL, mkTransfer 60 0 AIRSPY_SAMPLE_FLOAT32_REAL])"
      "snd (Airspy_deliverAll bufLength (newImpl ''airspy://1'' 0)
        [mkTransfer 10 0 AIRSPY_SAMPLE_FLOAT32_REAL, mkTransfer 20 3 AIRSPY_SAMPLE_FLOAT32_REAL,
         mkTransfer 30 0 AIRSPY_SAMPLE_FLOAT32_REAL, mkTransfer 40 0 AIRSPY_SAMPLE_FLOAT32_REAL,
         mkTransfer 50 0 AIRSPY_SAMPLE_FLOAT32_REAL, mkTransfer 60 0 AIRSPY_SAMPLE_FLOAT32_REAL])"
      "[]"]
    overflow_evicts_oldest [of "newImpl ''miri://1'' 0" "[]" bufLength
      "fst (Miri_deliverAll bufLength (newImpl ''miri://1'' 0) [512, 512, 512, 512, 512])"
      "snd (Miri_deliverAll bufLength (newImpl ''miri://1'' 0) [512, 512, 512, 512, 512])"
      "[512, 512, 512, 512, 512]"]
  by (simp add: capture_defs)

text \<open>
  Claim C1 as first stated fails on the Airspy backend: \<open>process_transfer\<close> also adds the
  \<open>dropped_samples\<close> count of every transfer to \<open>samplesDropped\<close>. Five transfers of 10
  samples, each reported with 7 dropped samples, remove one buffer of 10 samples (with the
  buffer length as its sample count) and leave \<open>samplesDropped\<close> at 45.
\<close>

theorem overflow_driver_drops_counterexample:
  "streamCallback (newImpl ''airspy://1'' 0) = None \<and>
   streamQueue (newImpl ''airspy://1'' 0) = [] \<and>
   samplesDropped (newImpl ''airspy://1'' 0) = 0 \<and>
   map bufLength (evictions (snd (Airspy_deliverAll bufLength (newImpl ''airspy://1'' 0)
     [mkTransfer 10 7 AIRSPY_SAMPLE_FLOAT32_REAL, mkTransfer 10 7 AIRSPY_SAMPLE_FLOAT32_REAL,
      mkTransfer 10 7 AIRSPY_SAMPLE_FLOAT32_REAL, mkTransfer 10 7 AIRSPY_SAMPLE_FLOAT32_REAL,
      mkTransfer 10 7 AIRSPY_SAMPLE_FLOAT32_REAL]))) = [10] \<and>
   samplesDropped (fst (Airspy_deliverAll bufLength (newImpl ''airspy://1'' 0)
     [mkTransfer 10 7 AIRSPY_SAMPLE_FLOAT32_REAL, mkTransfer 10 7 AIRSPY_SAMPLE_FLOAT32_REAL,
      mkTransfer 10 7 AIRSPY_SAMPLE_FLOAT32_REAL, mkTransfer 10 7 AIRSPY_SAMPLE_FLOAT32_REAL,
      mkTransfer 10 7 AIRSPY_SAMPLE_FLOAT32_REAL])) = 45"
  by (simp add: capture_defs)

section \<open>Properties of start, stop and the parameters\<close>

lemma intOfLong_id: "- (2 ^ 31) \<le> v \<Longrightarrow> v < 2 ^ 31 \<Longrightarrow> intOfLong v = v"
  by (simp add: intOfLong_def sint_sbintrunc' signed_take_bit_int_eq_self)

lemmas session_defs =
  Airspy_start_def Miri_start_def Airspy_stop_def Miri_stop_def isOpen_def Miri_isStreaming_def
  AIRSPY_SUCCESS_def MIRI_SUCCESS_def Let_def

text \<open>
  Claim C8, with the test \<open>stop\<close> makes. On the Airspy and on the Miri backend \<open>start\<close>
  returns the failure status -1 and changes nothing when the device is not Open, and so
  does \<open>stop\<close>. When the driver fails to arm, \<open>start\<close> returns a failure status, keeps the
  handle and clears the callback it had set: the device is Open, the Miri backend's
  \<open>isStreaming\<close> is false and a following \<open>stop\<close> fails. \<open>stop\<close> returns -1 and changes
  nothing when no callback is registered, which on the Miri backend is when \<open>isStreaming\<close>
  is false; with a handle and a registered callback it clears the callback and the stream
  queue, sets the stream time to 0, and a second \<open>stop\<close> fails. After a successful \<open>start\<close>
  both counters are 0, the stream queue is empty, the stream time is the clock's count of
  seconds stored in an \<open>int\<close> (the count itself while it fits) and the callback is the
  handler given. So \<open>stop\<close> after a successful \<open>start\<close> with a handler clears callback,
  queue and stream time, while after a successful \<open>start\<close> with the empty handler, the
  session in which \<open>process_transfer\<close> queues the buffers, \<open>stop\<close> returns -1 and changes
  nothing. The placeholder Miri backend is never Open and its \<open>start\<close> and \<open>stop\<close>
  return 0.
\<close>

theorem start_stop_sessions:
  "(\<not> isOpen d \<longrightarrow>
      Airspy_start rc now h d = (- 1, d) \<and> Miri_start rc now h d = (- 1, d) \<and>
      Airspy_stop rc d = (- 1, d) \<and> Miri_stop rc d = (- 1, d)) \<and>
   (isOpen d \<and> rc \<noteq> AIRSPY_SUCCESS \<longrightarrow>
      fst (Airspy_start rc now h d) = rc \<and>
      isOpen (snd (Airspy_start rc now h d)) \<and>
      streamCallback (snd (Airspy_start rc now h d)) = None \<and>
      Airspy_stop rcs (snd (Airspy_start rc now h d)) = (- 1, snd (Airspy_start rc now h d))) \<and>
   (isOpen d \<and> rc \<noteq> MIRI_SUCCESS \<longrightarrow>
      fst (Miri_start rc now h d) = - 1 \<and>
      isOpen (snd (Miri_start rc now h d)) \<and>
      streamCallback (snd (Miri_start rc now h d)) = None \<and>
      \<not> Miri_isStreaming (snd (Miri_start rc now h d)) \<and>
      Miri_stop rcs (snd (Miri_start rc now h d)) = (- 1, snd (Miri_start rc now h d))) \<and>
   (\<not> Miri_isStreaming d \<longrightarrow> Miri_stop rc d = (- 1, d)) \<and>
   (streamCallback d = None \<longrightarrow> Airspy_stop rc d = (- 1, d)) \<and>
   (Miri_isStreaming d \<longrightarrow>
      fst (Miri_stop rc d) = 0 \<and>
      streamCallback (snd (Miri_stop rc d)) = None \<and>
      streamQueue (snd (Miri_stop rc d)) = [] \<and>
      streamTime (snd (Miri_stop rc d)) = 0 \<and>
      \<not> Miri_isStreaming (snd (Miri_stop rc d)) \<and>
      Miri_stop rcs (snd (Miri_stop rc d)) = (- 1, snd (Miri_stop rc d))) \<and>
   (isOpen d \<and> streamCallback d \<noteq> None \<longrightarrow>
      fst (Airspy_stop rc d) = rc \<and>
      streamCallback (snd (Airspy_stop rc d)) = None \<and>
      streamQueue (snd (Airspy_stop rc d)) = [] \<and>
      streamTime (snd (Airspy_stop rc d)) = 0 \<and>
      Airspy_stop rcs (snd (Airspy_stop rc d)) = (- 1, snd (Airspy_stop rc d))) \<and>
   (fst (Airspy_start rc now h d) = AIRSPY_SUCCESS \<longrightarrow>
      isOpen d \<and>
      samplesReceived (snd (Airspy_start rc now h d)) = 0 \<and>
      samplesDropped (snd (Airspy_start rc now h d)) = 0 \<and>
      streamQueue (snd (Airspy_start rc now h d)) = [] \<and>
      streamTime (snd (Airspy_start rc now h d)) = intOfLong now \<and>
      streamCallback (snd (Airspy_start rc now h d)) = h) \<and>
   (fst (Miri_start rc now h d) = MIRI_SUCCESS \<longrightarrow>
      isOpen d \<and>
      samplesReceived (snd (Miri_start rc now h d)) = 0 \<and>
      samplesDropped (snd (Miri_start rc now h d)) = 0 \<and>
      streamQueue (snd (Miri_start rc now h d)) = [] \<and>
      streamTime (snd (Miri_start rc now h d)) = intOfLong now \<and>
      streamCallback (snd (Miri_start rc now h d)) = h \<and>
      (Miri_isStreaming (snd (Miri_start rc now h d)) \<longleftrightarrow> h \<noteq> None)) \<and>
   (- (2 ^ 31) \<le> now \<and> now < 2 ^ 31 \<longrightarrow> intOfLong now = now) \<and>
   (isOpen d \<and> h \<noteq> None \<longrightarrow>
      fst (Airspy_start AIRSPY_SUCCESS now h d) = AIRSPY_SUCCESS \<and>
      streamCallback (snd (Airspy_stop rcs (snd (Airspy_start AIRSPY_SUCCESS now h d)))) = None \<and>
      streamQueue (snd (Airspy_stop rcs (snd (Airspy_start AIRSPY_SUCCESS now h d)))) = [] \<and>
      streamTime (snd (Airspy_stop rcs (snd (Airspy_start AIRSPY_SUCCESS now h d)))) = 0 \<and>
      fst (Miri_start MIRI_SUCCESS now h d) = MIRI_SUCCESS \<and>
      streamCallback (snd (Miri_stop rcs (snd (Miri_start MIRI_SUCCESS now h d)))) = None \<and>
      streamQueue (snd (Miri_stop rcs (snd (Miri_start MIRI_SUCCESS now h d)))) = [] \<and>
      streamTime (snd (Miri_stop rcs (snd (Miri_start MIRI_SUCCESS now h d)))) = 0) \<and>
   (isOpen d \<longrightarrow>
      fst (Airspy_start AIRSPY_SUCCESS now None d) = AIRSPY_SUCCESS \<and>
      Airspy_stop rcs (snd (Airspy_start AIRSPY_SUCCESS now None d)) =
        (- 1, snd (Airspy_start AIRSPY_SUCCESS now None d)) \<and>
      fst (Miri_start MIRI_SUCCESS now None d) = MIRI_SUCCESS \<and>
      Miri_stop rcs (snd (Miri_start MIRI_SUCCESS now None d)) =
        (- 1, snd (Miri_start MIRI_SUCCESS now None d))) \<and>
   MiriStub_start h u = (0, u) \<and> MiriStub_stop u = (0, u) \<and>
   \<not> MiriStub_isOpen u \<and> \<not> MiriStub_isStreaming u"
proof (intro conjI)
  show "- (2 ^ 31) \<le> now \<and> now < 2 ^ 31 \<longrightarrow> intOfLong now = now"
    using intOfLong_id by simp
qed (auto simp: session_defs MiriStub_start_def MiriStub_stop_def MiriStub_isOpen_def
    MiriStub_isStreaming_def)

theorem start_stop_sessions_witness:
  "\<not> isOpen (newImpl ''airspy://1'' 0) \<and>
   Airspy_start 0 1700000000 (Some 7) (newImpl ''airspy://1'' 0) = (- 1, newImpl ''airspy://1'' 0) \<and>
   isOpen ((newImpl ''airspy://1'' 0)\<lparr>deviceHandle := Some 1\<rparr>) \<and>
   (- 5 :: int) \<noteq> AIRSPY_SUCCESS \<and>
   fst (Airspy_start (- 5) 1700000000 (Some 7)
          ((newImpl ''airspy://1'' 0)\<lparr>deviceHandle := Some 1\<rparr>)) = - 5 \<and>
   streamCallback (snd (Airspy_start (- 5) 1700000000 (Some 7)
          ((newImpl ''airspy://1'' 0)\<lparr>deviceHandle := Some 1\<rparr>))) = None \<and>
   fst (Miri_start (- 5) 1700000000 (Some 7)
          ((newImpl ''airspy://1'' 0)\<lparr>deviceHandle := Some 1\<rparr>)) = - 1 \<and>
   \<not> Miri_isStreaming ((newImpl ''airspy://1'' 0)\<lparr>deviceHandle := Some 1\<rparr>) \<and>
   fst (Miri_stop 0 ((newImpl ''airspy://1'' 0)\<lparr>deviceHandle := Some 1\<rparr>)) = - 1 \<and>
   Miri_isStreaming ((newImpl ''airspy://1'' 0)
     \<lparr>deviceHandle := Some 1, streamCallback := Some 7, streamQueue := [emptyBuffer],
      streamTime := 1700000000\<rparr>) \<and>
   streamQueue (snd (Airspy_stop 0 ((newImpl ''airspy://1'' 0)
     \<lparr>deviceHandle := Some 1, streamCallback := Some 7, streamQueue := [emptyBuffer],
      streamTime := 1700000000\<rparr>))) = [] \<and>
   streamTime (snd (Miri_stop 0 ((newImpl ''airspy://1'' 0)
     \<lparr>deviceHandle := Some 1, streamCallback := Some 7, streamQueue := [emptyBuffer],
      streamTime := 1700000000\<rparr>))) = 0 \<and>
   fst (Airspy_start 0 1700000000 (Some 7)
          ((newImpl ''airspy://1'' 0)\<lparr>deviceHandle := Some 1\<rparr>)) = AIRSPY_SUCCESS \<and>
   - (2 ^ 31) \<le> (1700000000 :: int) \<and> (1700000000 :: int) < 2 ^ 31 \<and>
   streamTime (snd (Airspy_start 0 1700000000 (Some 7)
          ((newImpl ''airspy://1'' 0)\<lparr>deviceHandle := Some 1\<rparr>))) = 1700000000 \<and>
   streamTime (snd (Airspy_stop 0 (snd (Airspy_start AIRSPY_SUCCESS 1700000000 (Some 7)
          ((newImpl ''airspy://1'' 0)\<lparr>deviceHandle := Some 1\<rparr>))))) = 0 \<and>
   fst (Miri_start 0 1700000000 (Some 7)
          ((newImpl ''airspy://1'' 0)\<lparr>deviceHandle := Some 1\<rparr>)) = MIRI_SUCCESS \<and>
   samplesDropped (snd (Miri_start 0 1700000000 (Some 7)
          ((newImpl ''airspy://1'' 0)\<lparr>deviceHandle := Some 1, samplesDropped := 9\<rparr>))) = 0"
  using start_stop_sessions [where d = "newImpl ''airspy://1'' 0" and rc = 0
      and now = 1700000000 and h = "Some 7"]
    start_stop_sessions [where d = "(newImpl ''airspy://1'' 0)\<lparr>deviceHandle := Some 1\<rparr>"
      and rc = "- 5" and rcs = 0 and now = 1700000000 and h = "Some 7"]
    start_stop_sessions [where d = "(newImpl ''airspy://1'' 0)\<lparr>deviceHandle := Some 1\<rparr>"
      and rc = 0 and rcs = 0 and now = 1700000000 and h = "Some 7"]
    start_stop_sessions [where d = "(newImpl ''airspy://1'' 0)
        \<lparr>deviceHandle := Some 1, samplesDropped := 9\<rparr>"
      and rc = 0 and now = 1700000000 and h = "Some 7"]
    start_stop_sessions [where d = "(newImpl ''airspy://1'' 0)
        \<lparr>deviceHandle := Some 1, streamCallback := Some 7, streamQueue := [emptyBuffer],
         streamTime := 1700000000\<rparr>"
      and rc = 0 and now = 1700000000 and h = "Some 7"]
  by (simp add: newImpl_def session_defs intOfLong_def)

text \<open>
  Claim C8 as first stated fails in two places. The placeholder Miri backend is never Open,
  yet its \<open>start\<close> returns 0, the status of success. And on the Airspy backend a session
  started with the empty handler is streaming: \<open>start\<close> succeeds, \<open>process_transfer\<close>
  queues the transfer and \<open>isStreaming\<close> is the driver's answer, true while it delivers;
  there \<open>stop\<close> returns -1 and leaves the queue and the stream time as they are.
\<close>

theorem stop_pull_mode_counterexample:
  "\<not> MiriStub_isOpen () \<and> fst (MiriStub_start (Some 7) ()) = 0 \<and>
   isOpen ((newImpl ''airspy://1'' 0)\<lparr>deviceHandle := Some 1\<rparr>) \<and>
   fst (Airspy_start 0 1700000000 None ((newImpl ''airspy://1'' 0)\<lparr>deviceHandle := Some 1\<rparr>))
     = AIRSPY_SUCCESS \<and>
   Airspy_isStreaming True
     (fst (Airspy_deliverAll bufLength
        (snd (Airspy_start 0 1700000000 None
               ((newImpl ''airspy://1'' 0)\<lparr>deviceHandle := Some 1\<rparr>)))
        [mkTransfer 10 0 AIRSPY_SAMPLE_FLOAT32_REAL])) \<and>
   length (streamQueue
     (fst (Airspy_deliverAll bufLength
        (snd (Airspy_start 0 1700000000 None
               ((newImpl ''airspy://1'' 0)\<lparr>deviceHandle := Some 1\<rparr>)))
        [mkTransfer 10 0 AIRSPY_SAMPLE_FLOAT32_REAL]))) = 1 \<and>
   fst (Airspy_stop 0
     (fst (Airspy_deliverAll bufLength
        (snd (Airspy_start 0 1700000000 None
               ((newImpl ''airspy://1'' 0)\<lparr>deviceHandle := Some 1\<rparr>)))
        [mkTransfer 10 0 AIRSPY_SAMPLE_FLOAT32_REAL]))) = - 1 \<and>
   length (streamQueue (snd (Airspy_stop 0
     (fst (Airspy_deliverAll bufLength
        (snd (Airspy_start 0 1700000000 None
               ((newImpl ''airspy://1'' 0)\<lparr>deviceHandle := Some 1\<rparr>)))
        [mkTransfer 10 0 AIRSPY_SAMPLE_FLOAT32_REAL]))))) = 1 \<and>
   streamTime (snd (Airspy_stop 0
     (fst (Airspy_deliverAll bufLength
        (snd (Airspy_start 0 1700000000 None
               ((newImpl ''airspy://1'' 0)\<lparr>deviceHandle := Some 1\<rparr>)))
        [mkTransfer 10 0 AIRSPY_SAMPLE_FLOAT32_REAL])))) = 1700000000"
  by (simp add: session_defs MiriStub_start_def MiriStub_isOpen_def Airspy_isStreaming_def
      newImpl_def mkTransfer_def Airspy_process_transfer_def storeBuffer_def Airspy_buffer_def
      MAX_QUEUE_SIZE_def intOfLong_def)

text \<open>
  Claim C9, for the mutators that reach the stored parameter. On the Airspy backend each of
  the seven mutators stores the value it is given, and the accessor of the same parameter
  then returns that value, whether or not the device has a handle and whatever status the
  driver returns; so do \<open>setCenterFreq\<close>, \<open>setGainMode\<close>, \<open>setGainValue\<close>,
  \<open>setDecimation\<close>, \<open>setTunerAgc\<close> and \<open>setMixerAgc\<close> on the Miri backend. The centre
  frequency and the sample rate arrive as \<open>long\<close> and are stored in an \<open>int\<close>: a value
  within the range of \<open>int\<close> is stored as it is. The placeholder Miri backend stores
  nothing: each of its accessors returns 0 after every mutator call.
\<close>

theorem mutators_store_value:
  "Airspy_centerFreq (snd (Airspy_setCenterFreq rc v d)) = intOfLong v \<and>
   Airspy_sampleRate (snd (Airspy_setSampleRate rc v d)) = intOfLong v \<and>
   Airspy_gainMode (snd (Airspy_setGainMode modes rc rc2 rc3 v d)) = v \<and>
   Airspy_gainValue (snd (Airspy_setGainValue modes rc v d)) = v \<and>
   Airspy_decimation (snd (Airspy_setDecimation v d)) = v \<and>
   Airspy_tunerAgc (snd (Airspy_setTunerAgc modes rc v d)) = v \<and>
   Airspy_mixerAgc (snd (Airspy_setMixerAgc modes rc v d)) = v \<and>
   Miri_centerFreq (snd (Miri_setCenterFreq rc v d)) = intOfLong v \<and>
   Miri_gainMode (snd (Miri_setGainMode modes rc rc2 v d)) = v \<and>
   Miri_gainValue (snd (Miri_setGainValue rc v d)) = v \<and>
   Miri_decimation (snd (Miri_setDecimation v d)) = v \<and>
   Miri_tunerAgc (snd (Miri_setTunerAgc v d)) = v \<and>
   Miri_mixerAgc (snd (Miri_setMixerAgc v d)) = v \<and>
   (- (2 ^ 31) \<le> v \<and> v < 2 ^ 31 \<longrightarrow> intOfLong v = v) \<and>
   MiriStub_centerFreq (snd (MiriStub_setCenterFreq v u)) = 0 \<and>
   MiriStub_sampleRate (snd (MiriStub_setSampleRate v u)) = 0 \<and>
   MiriStub_gainMode (snd (MiriStub_setGainMode v u)) = 0 \<and>
   MiriStub_gainValue (snd (MiriStub_setGainValue v u)) = 0 \<and>
   MiriStub_decimation (snd (MiriStub_setDecimation v u)) = 0 \<and>
   MiriStub_tunerAgc (snd (MiriStub_setTunerAgc v u)) = 0 \<and>
   MiriStub_mixerAgc (snd (MiriStub_setMixerAgc v u)) = 0"
proof (intro conjI)
  show "Airspy_centerFreq (snd (Airspy_setCenterFreq rc v d)) = intOfLong v"
    by (simp add: Airspy_centerFreq_def Airspy_setCenterFreq_def Let_def)
  show "Airspy_sampleRate (snd (Airspy_setSampleRate rc v d)) = intOfLong v"
    by (simp add: Airspy_sampleRate_def Airspy_setSampleRate_def Let_def)
  show "Airspy_gainMode (snd (Airspy_setGainMode modes rc rc2 rc3 v d)) = v"
    by (simp add: Airspy_gainMode_def Airspy_setGainMode_def Airspy_setGainValue_def Let_def)
  show "Airspy_gainValue (snd (Airspy_setGainValue modes rc v d)) = v"
    by (simp add: Airspy_gainValue_def Airspy_setGainValue_def Let_def)
  show "Airspy_decimation (snd (Airspy_setDecimation v d)) = v"
    by (simp add: Airspy_decimation_def Airspy_setDecimation_def)
  show "Airspy_tunerAgc (snd (Airspy_setTunerAgc modes rc v d)) = v"
    by (simp add: Airspy_tunerAgc_def Airspy_setTunerAgc_def Let_def)
  show "Airspy_mixerAgc (snd (Airspy_setMixerAgc modes rc v d)) = v"
    by (simp add: Airspy_mixerAgc_def Airspy_setMixerAgc_def Let_def)
  show "Miri_centerFreq (snd (Miri_setCenterFreq rc v d)) = intOfLong v"
    by (simp add: Miri_centerFreq_def Miri_setCenterFreq_def MiriImpl_setCenterFreq_def Let_def)
  show "Miri_gainMode (snd (Miri_setGainMode modes rc rc2 v d)) = v"
    by (simp add: Miri_gainMode_def Miri_setGainMode_def MiriImpl_setGainMode_def
        MiriImpl_setGainValue_def Let_def)
  show "Miri_gainValue (snd (Miri_setGainValue rc v d)) = v"
    by (simp add: Miri_gainValue_def Miri_setGainValue_def MiriImpl_setGainValue_def Let_def)
  show "Miri_decimation (snd (Miri_setDecimation v d)) = v"
    by (simp add: Miri_decimation_def Miri_setDecimation_def MiriImpl_setDecimation_def)
  show "Miri_tunerAgc (snd (Miri_setTunerAgc v d)) = v"
    by (simp add: Miri_tunerAgc_def Miri_setTunerAgc_def MiriImpl_setTunerAgc_def)
  show "Miri_mixerAgc (snd (Miri_setMixerAgc v d)) = v"
    by (simp add: Miri_mixerAgc_def Miri_setMixerAgc_def MiriImpl_setMixerAgc_def)
  show "- (2 ^ 31) \<le> v \<and> v < 2 ^ 31 \<longrightarrow> intOfLong v = v"
    using intOfLong_id by simp
qed (simp_all add: MiriStub_centerFreq_def MiriStub_sampleRate_def MiriStub_gainMode_def
    MiriStub_gainValue_def MiriStub_decimation_def MiriStub_tunerAgc_def MiriStub_mixerAgc_def)

theorem mutators_store_value_witness:
  "- (2 ^ 31) \<le> (13560000 :: int) \<and> (13560000 :: int) < 2 ^ 31 \<and>
   intOfLong 13560000 = 13560000 \<and>
   Airspy_centerFreq (snd (Airspy_setCenterFreq (- 1) 13560000
     ((newImpl ''airspy://1'' 0)\<lparr>deviceHandle := Some 1\<rparr>))) = 13560000 \<and>
   Airspy_sampleRate (snd (Airspy_setSampleRate 0 13560000 (newImpl ''airspy://1'' 0)))
     = 13560000 \<and>
   Miri_centerFreq (snd (Miri_setCenterFreq (- 1) 13560000 (newImpl ''miri://1'' 0)))
     = 13560000"
  using mutators_store_value [where v = 13560000 and rc = "- 1"
      and d = "(newImpl ''airspy://1'' 0)\<lparr>deviceHandle := Some 1\<rparr>"]
    mutators_store_value [where v = 13560000 and rc = 0 and d = "newImpl ''airspy://1'' 0"]
    mutators_store_value [where v = 13560000 and rc = "- 1" and d = "newImpl ''miri://1'' 0"]
  by simp

text \<open>
  Claim C9 as first stated, for every mutator on every backend, fails. The placeholder Miri
  backend returns centre frequency 0 after \<open>setCenterFreq(13560000)\<close>. On the Miri backend
  \<open>setSampleRate\<close> returns 0 without calling the \<open>Impl\<close>, and \<open>sampleRate()\<close> returns 0:
  after \<open>setSampleRate(10000000)\<close> both the accessor and the stored field are 0, while
  \<open>setSampleSize(16)\<close> sets the stored sample rate to 16.
\<close>

theorem mutators_store_value_counterexample:
  "MiriStub_centerFreq (snd (MiriStub_setCenterFreq 13560000 ())) = 0 \<and>
   Miri_sampleRate (snd (Miri_setSampleRate 10000000 (newImpl ''miri://1'' 0))) = 0 \<and>
   sampleRate (snd (Miri_setSampleRate 10000000 (newImpl ''miri://1'' 0))) = 0 \<and>
   sampleRate (snd (Miri_setSampleSize 0 16 (newImpl ''miri://1'' 0))) = 16"
  by (simp add: MiriStub_centerFreq_def Miri_sampleRate_def Miri_setSampleRate_def newImpl_def
      Miri_setSampleSize_def MiriImpl_setSampleRate_def intOfLong_def)

end
